theory Spec2Isabelle
  imports Complex_Main "HOL-Library.List_Lexorder" "HOL-Library.Multiset" "HOL-Library.Log_Nat"
begin

section \<open>Out-percentage analysis: the computations of \<open>streamlit_app.py\<close>\<close>

text \<open>
  The program is a Streamlit page over a pandas table of Statcast pitch records. The
  functions verified here are \<open>load_statcast_data\<close>, \<open>calculate_out_percentage\<close>,
  \<open>format_player_name\<close>, \<open>get_out_percentage_by_pitch_type\<close> and
  \<open>get_league_avg_out_percentage\<close>. The pandas operations they call
  (\<open>isin\<close>, boolean masks, \<open>groupby(...).agg\<close>, \<open>round\<close>, \<open>map\<close>) are library
  code; each is modelled by a small function of its own, named after the pandas
  operation, following the behaviour pandas documents.
\<close>

subsection \<open>Strings\<close>

text \<open>
  A Python \<open>str\<close> is a sequence of Unicode code points, so a string is a list of code
  point numbers. \<open>str ''FF''\<close> is the string of an ASCII literal. Lists of numbers are
  ordered lexicographically, which is Python's order on strings.
\<close>

type_synonym str = "nat list"

abbreviation str :: "string \<Rightarrow> str" where
  "str s \<equiv> map of_char s"

text \<open>
  \<open>str.isspace\<close> for one code point: the characters CPython's Unicode database
  classes as whitespace (U+0009..000D, U+001C..0020, U+0085, U+00A0, U+1680,
  U+2000..200A, U+2028, U+2029, U+202F, U+205F, U+3000).
\<close>

definition isspace :: "nat \<Rightarrow> bool" where
  "isspace c \<longleftrightarrow>
     (9 \<le> c \<and> c \<le> 13) \<or> (28 \<le> c \<and> c \<le> 32) \<or> c = 133 \<or> c = 160 \<or> c = 5760 \<or>
     (8192 \<le> c \<and> c \<le> 8202) \<or> c = 8232 \<or> c = 8233 \<or> c = 8239 \<or> c = 8287 \<or> c = 12288"

text \<open>\<open>s.strip()\<close>: leading and trailing whitespace removed.\<close>

definition strip :: "str \<Rightarrow> str" where
  "strip s = rev (dropWhile isspace (rev (dropWhile isspace s)))"

text \<open>
  \<open>s.split(sep, 1)\<close> for a one-character separator: at most one split, at the first
  occurrence of the separator; a string without the separator is returned whole.
\<close>

definition split_once :: "nat \<Rightarrow> str \<Rightarrow> str list" where
  "split_once sep s =
     (if sep \<in> set s
      then [takeWhile (\<lambda>c. c \<noteq> sep) s, tl (dropWhile (\<lambda>c. c \<noteq> sep) s)]
      else [s])"

subsection \<open>Errors and tables\<close>

text \<open>
  The exceptions the verified functions can raise: \<open>KeyError\<close> when a column is read
  from a table that does not have it, \<open>ValueError\<close> when a tuple assignment unpacks a
  list of the wrong length.
\<close>

datatype error = KeyError str | ValueError

text \<open>
  A \<open>DataFrame\<close> is either the frame without any column, which is what
  \<open>pd.DataFrame()\<close> builds, or a table that has the columns of its row type. Reading a
  column of the first raises \<open>KeyError\<close>. \<open>df.empty\<close> holds for the column-less frame
  and for a table without rows.
\<close>

datatype 'r frame = NoColumns | Table "'r list"

fun empty :: "'r frame \<Rightarrow> bool" where
  "empty NoColumns = True"
| "empty (Table rs) = (rs = [])"

text \<open>
  One Statcast record, with the four columns the program reads. \<open>player_name\<close>,
  \<open>pitch_type\<close> and \<open>events\<close> are object columns that hold a string or a missing value
  (\<open>None\<close>); \<open>game_year\<close> is an integer column.
\<close>

record pitch_event =
  player_name :: "str option"
  game_year :: int
  pitch_type :: "str option"
  events :: "str option"

text \<open>The record after \<open>calculate_out_percentage\<close> has added the column \<open>IsOutPitch\<close>.\<close>

record classified_event = pitch_event +
  IsOutPitch :: bool

subsection \<open>\<open>load_statcast_data\<close>\<close>

text \<open>
  The dates handed to the fetch are texts. \<open>Year_month_day y 3 1\<close> is the text of
  \<open>f"{y}-03-01"\<close>; \<open>Day n\<close> is \<open>strftime("%Y-%m-%d")\<close> of the day with ordinal \<open>n\<close>,
  so that \<open>today - timedelta(days=21)\<close> is \<open>Day (today - 21)\<close>.
\<close>

datatype date_text = Year_month_day int nat nat | Day int

text \<open>What the page shows, one constructor for each message of the function.\<close>

datatype ui_event =
    Spinner_fetching
  | Success_loaded
  | Error_loading str
  | Spinner_smaller_range date_text date_text
  | Success_reduced
  | Error_failed str

text \<open>
  An entry of the cache of \<open>st.cache_data\<close>: the frame a call returned, the messages
  the call showed, which Streamlit shows again when the entry answers a later call,
  and the time, in seconds, at which the entry expires.
\<close>

record cache_entry =
  cached_frame :: "pitch_event frame"
  cached_ui :: "ui_event list"
  expires :: int

text \<open>
  The state of the app: the requests sent to the Statcast service so far, the messages
  shown so far, and the cache of \<open>load_statcast_data\<close>, keyed by the arguments
  \<open>(start_year, end_year)\<close>. The service is a parameter: given the number of requests
  already sent and the two dates, it raises an exception (\<open>Inl\<close>, with the exception's
  text) or returns a frame. The exceptions are those of class \<open>Exception\<close>, which the \<open>except\<close>
  clauses catch; the display calls of Streamlit are taken to succeed.
\<close>

record session =
  requests :: "(date_text \<times> date_text) list"
  ui :: "ui_event list"
  cache :: "int \<times> int \<Rightarrow> cache_entry option"

type_synonym service = "nat \<Rightarrow> date_text \<Rightarrow> date_text \<Rightarrow> str + pitch_event frame"

definition statcast ::
  "service \<Rightarrow> date_text \<Rightarrow> date_text \<Rightarrow> session \<Rightarrow> (str + pitch_event frame) \<times> session" where
  "statcast srv start_dt end_dt s =
     (srv (length (requests s)) start_dt end_dt,
      s\<lparr>requests := requests s @ [(start_dt, end_dt)]\<rparr>)"

definition st_show :: "ui_event \<Rightarrow> session \<Rightarrow> session" where
  "st_show m s = s\<lparr>ui := ui s @ [m]\<rparr>"

text \<open>
  The body of \<open>load_statcast_data\<close>, lines 137 to 161. \<open>today\<close> is the ordinal of
  the day \<open>datetime.now()\<close> returns.
\<close>

definition load_statcast_data_body ::
  "service \<Rightarrow> int \<Rightarrow> int \<Rightarrow> int \<Rightarrow> session \<Rightarrow> pitch_event frame \<times> session" where
  "load_statcast_data_body srv today start_year end_year s0 =
     (let start_date = Year_month_day start_year 3 1;
          end_date = Year_month_day end_year 11 30;
          s1 = st_show Spinner_fetching s0;
          (r, s2) = statcast srv start_date end_date s1
      in case r of
           Inr data \<Rightarrow> (data, st_show Success_loaded s2)
         | Inl e \<Rightarrow>
             (let s3 = st_show (Error_loading e) s2;
                  new_start_date = Day (today - 21);
                  new_end_date = Day today;
                  s4 = st_show (Spinner_smaller_range new_start_date new_end_date) s3;
                  (r2, s5) = statcast srv new_start_date new_end_date s4
              in case r2 of
                   Inr data \<Rightarrow> (data, st_show Success_reduced s5)
                 | Inl e2 \<Rightarrow> (NoColumns, st_show (Error_failed e2) s5)))"

text \<open>
  The decorator \<open>@st.cache_data(ttl=3600)\<close> of line 135. The cache answers a call when
  it holds an entry for the arguments that has not expired: the entry's frame is
  returned, its messages are shown again, and the body does not run. Otherwise the
  body runs, and what it returned and showed is stored for 3600 seconds. \<open>now\<close> is the
  time at which the cache is asked and \<open>stored\<close> the time at which the new entry is
  stored, both in seconds.
\<close>

definition cache_lookup :: "session \<Rightarrow> int \<times> int \<Rightarrow> int \<Rightarrow> cache_entry option" where
  "cache_lookup s key now =
     (case cache s key of
        None \<Rightarrow> None
      | Some c \<Rightarrow> if now < expires c then Some c else None)"

definition load_statcast_data ::
  "service \<Rightarrow> int \<Rightarrow> int \<Rightarrow> int \<Rightarrow> int \<Rightarrow> int \<Rightarrow> session \<Rightarrow>
     pitch_event frame \<times> session" where
  "load_statcast_data srv now stored today start_year end_year s =
     (case cache_lookup s (start_year, end_year) now of
        Some c \<Rightarrow> (cached_frame c, s\<lparr>ui := ui s @ cached_ui c\<rparr>)
      | None \<Rightarrow>
          (let (data, s') = load_statcast_data_body srv today start_year end_year s
           in (data,
               s'\<lparr>cache := (cache s')((start_year, end_year) \<mapsto>
                    \<lparr>cached_frame = data, cached_ui = drop (length (ui s)) (ui s'),
                     expires = stored + 3600\<rparr>)\<rparr>)))"

subsection \<open>\<open>calculate_out_percentage\<close>\<close>

definition out_events :: "str list" where
  "out_events =
     [str ''field_out'', str ''strikeout'', str ''grounded_into_double_play'',
      str ''fielders_choice_out'', str ''force_out'', str ''sac_fly'', str ''sac_bunt'',
      str ''strikeout_double_play'', str ''double_play'', str ''sac_fly_double_play'',
      str ''other_out'', str ''triple_play'', str ''sac_bunt_double_play'']"

text \<open>\<open>Series.isin(values)\<close> on one cell: a missing value is in no list of strings.\<close>

definition isin :: "str option \<Rightarrow> str list \<Rightarrow> bool" where
  "isin cell values = (case cell of None \<Rightarrow> False | Some s \<Rightarrow> s \<in> set values)"

text \<open>
  \<open>data['events']\<close> raises \<open>KeyError\<close> on a frame without that column; otherwise the
  new column is computed row by row and the frame is returned.
\<close>

fun calculate_out_percentage :: "pitch_event frame \<Rightarrow> error + classified_event frame" where
  "calculate_out_percentage NoColumns = Inl (KeyError (str ''events''))"
| "calculate_out_percentage (Table rows) =
     Inr (Table (map (\<lambda>e. \<lparr>player_name = player_name e, game_year = game_year e,
                            pitch_type = pitch_type e, events = events e,
                            IsOutPitch = isin (events e) out_events\<rparr>) rows))"

subsection \<open>\<open>format_player_name\<close>\<close>

definition format_player_name :: "str \<Rightarrow> error + str" where
  "format_player_name name =
     (if of_char CHR '','' \<in> set name
      then (case split_once (of_char CHR '','') name of
              [last_name, first_name] \<Rightarrow> Inr (strip first_name @ str '' '' @ strip last_name)
            | _ \<Rightarrow> Inl ValueError)
      else Inr name)"

subsection \<open>Grouping and the percentage\<close>

text \<open>
  The percentage is computed in \<open>float64\<close> (IEEE binary64) arithmetic. A finite
  \<open>float64\<close> is kept as the rational number it stands for, and every operation rounds
  its exact result to the nearest number with a significand of 53 bits, a tie going
  to the even significand. The exponent range is not modelled: the quotient of two
  \<open>int64\<close> counts and its multiples by 100 and 10000 lie far inside it.
\<close>

text \<open>\<open>rint\<close>: the nearest integer, a tie going to the even one.\<close>

definition rint :: "rat \<Rightarrow> int" where
  "rint q =
     (let f = \<lfloor>q\<rfloor>; d = q - of_int f
      in if d < 1 / 2 then f else if 1 / 2 < d then f + 1 else if even f then f else f + 1)"

text \<open>The binary exponent of a positive number: \<open>2 ^ e \<le> x < 2 ^ (e + 1)\<close>.\<close>

definition exponent :: "rat \<Rightarrow> int" where
  "exponent x = (if 1 \<le> x then bitlen \<lfloor>x\<rfloor> - 1 else - bitlen (\<lceil>1 / x\<rceil> - 1))"

text \<open>
  The \<open>float64\<close> nearest to \<open>x\<close>: the significand \<open>x / 2 ^ e\<close> is rounded to 52 binary
  places.
\<close>

definition binary64 :: "rat \<Rightarrow> rat" where
  "binary64 x =
     (if x = 0 then 0
      else let s = 2 powi (52 - exponent \<bar>x\<bar>) in of_int (rint (x * s)) / s)"

text \<open>
  A \<open>float64\<close> cell. Division of integer columns does not raise in pandas: \<open>0/0\<close> is
  \<open>NaN\<close> and \<open>x/0\<close> is an infinity; otherwise both counts are converted to
  \<open>float64\<close> and divided.
\<close>

datatype float64 = Fin rat | PosInf | NegInf | NaN

definition truediv :: "int \<Rightarrow> int \<Rightarrow> float64" where
  "truediv a b =
     (if b = 0 then (if a = 0 then NaN else if 0 < a then PosInf else NegInf)
      else Fin (binary64 (binary64 (of_int a) / binary64 (of_int b))))"

text \<open>The product of a column and a \<open>float64\<close> scalar.\<close>

definition mul :: "float64 \<Rightarrow> rat \<Rightarrow> float64" where
  "mul x c = (case x of Fin q \<Rightarrow> Fin (binary64 (q * c)) | other \<Rightarrow> other)"

text \<open>
  \<open>Series.round(2)\<close>: numpy multiplies by 100, takes \<open>rint\<close> and divides by 100, each
  step a \<open>float64\<close> operation.
\<close>

definition round2 :: "float64 \<Rightarrow> float64" where
  "round2 x =
     (case x of
        Fin q \<Rightarrow> Fin (binary64 (of_int (rint (binary64 (q * 100))) / 100))
      | other \<Rightarrow> other)"

text \<open>The rows of the three stages of the result table.\<close>

record grouped =
  pitch_type_key :: str
  out_pitch_count :: int
  total_pitches :: int

record with_percentage = grouped +
  out_percentage :: float64

record aggregate_row = with_percentage +
  pitch_name :: str

text \<open>
  \<open>df.groupby('pitch_type')['IsOutPitch'].agg([('out_pitch_count', 'sum'),
  ('total_pitches', 'count')]).reset_index()\<close>. With the defaults \<open>sort=True\<close> and
  \<open>dropna=True\<close> the groups are the distinct pitch types that are not missing, in
  ascending order; \<open>sum\<close> of a boolean column counts its \<open>True\<close> cells and \<open>count\<close>
  counts the cells that are not missing, which is all of them for a boolean column.
  \<open>reset_index\<close> makes the group key the column \<open>pitch_type\<close> of the result
  (\<open>pitch_type_key\<close> here, the name being taken by the input column).
\<close>

definition group_keys :: "classified_event list \<Rightarrow> str list" where
  "group_keys df = sort (remdups (List.map_filter pitch_type df))"

definition group_of :: "classified_event list \<Rightarrow> str \<Rightarrow> classified_event list" where
  "group_of df k = filter (\<lambda>e. pitch_type e = Some k) df"

definition groupby_pitch_type_agg :: "classified_event list \<Rightarrow> grouped list" where
  "groupby_pitch_type_agg df =
     map (\<lambda>k. let g = group_of df k
               in \<lparr>pitch_type_key = k,
                   out_pitch_count = (\<Sum>e\<leftarrow>g. if IsOutPitch e then 1 else 0),
                   total_pitches = int (length g)\<rparr>)
         (group_keys df)"

text \<open>
  \<open>t['out_percentage'] = (t['out_pitch_count'] / t['total_pitches'] * 100).round(2)\<close>,
  computed for every group, before the threshold is applied.
\<close>

definition add_out_percentage :: "grouped list \<Rightarrow> with_percentage list" where
  "add_out_percentage t =
     map (\<lambda>g. \<lparr>pitch_type_key = pitch_type_key g, out_pitch_count = out_pitch_count g,
                total_pitches = total_pitches g,
                out_percentage =
                  round2 (mul (truediv (out_pitch_count g) (total_pitches g)) 100)\<rparr>) t"

text \<open>
  The dictionary \<open>pitch_type_map\<close>. Both aggregation functions build it, with the same
  fourteen entries in the same order.
\<close>

definition pitch_type_map :: "(str \<times> str) list" where
  "pitch_type_map =
     [(str ''FF'', str ''Four-Seam Fastball''),
      (str ''SL'', str ''Slider''),
      (str ''CH'', str ''Changeup''),
      (str ''CU'', str ''Curveball''),
      (str ''SI'', str ''Sinker''),
      (str ''FC'', str ''Cutter''),
      (str ''FS'', str ''Splitter''),
      (str ''FT'', str ''Two-Seam Fastball''),
      (str ''KC'', str ''Knuckle Curve''),
      (str ''EP'', str ''Eephus''),
      (str ''KN'', str ''Knuckleball''),
      (str ''SC'', str ''Screwball''),
      (str ''ST'', str ''Sweeper''),
      (str ''SV'', str ''Slurve'')]"

text \<open>\<open>pitch_type_map.get(x, x)\<close>\<close>

definition get_or_self :: "(str \<times> str) list \<Rightarrow> str \<Rightarrow> str" where
  "get_or_self d x = (case map_of d x of None \<Rightarrow> x | Some v \<Rightarrow> v)"

definition add_pitch_name :: "with_percentage list \<Rightarrow> aggregate_row list" where
  "add_pitch_name t =
     map (\<lambda>r. \<lparr>pitch_type_key = pitch_type_key r, out_pitch_count = out_pitch_count r,
                total_pitches = total_pitches r, out_percentage = out_percentage r,
                pitch_name = get_or_self pitch_type_map (pitch_type_key r)\<rparr>) t"

subsection \<open>The two aggregation functions\<close>

text \<open>
  \<open>data['player_name']\<close> is the first column read, so that is the key a column-less
  frame fails on. A missing player name equals no string.
\<close>

fun get_out_percentage_by_pitch_type ::
  "classified_event frame \<Rightarrow> str \<Rightarrow> int \<Rightarrow> int \<Rightarrow> error + aggregate_row list" where
  "get_out_percentage_by_pitch_type NoColumns player year min_pitches =
     Inl (KeyError (str ''player_name''))"
| "get_out_percentage_by_pitch_type (Table data) player year min_pitches =
     (let player_data =
            filter (\<lambda>e. player_name e = Some player \<and> game_year e = year) data;
          pitch_type_results = groupby_pitch_type_agg player_data;
          pitch_type_results = add_out_percentage pitch_type_results;
          pitch_type_results = filter (\<lambda>r. min_pitches \<le> total_pitches r) pitch_type_results
      in Inr (add_pitch_name pitch_type_results))"

fun get_league_avg_out_percentage ::
  "classified_event frame \<Rightarrow> int \<Rightarrow> int \<Rightarrow> error + aggregate_row list" where
  "get_league_avg_out_percentage NoColumns year min_pitches =
     Inl (KeyError (str ''game_year''))"
| "get_league_avg_out_percentage (Table data) year min_pitches =
     (let year_data = filter (\<lambda>e. game_year e = year) data;
          league_avg = groupby_pitch_type_agg year_data;
          league_avg = add_out_percentage league_avg;
          league_avg = filter (\<lambda>r. min_pitches \<le> total_pitches r) league_avg
      in Inr (add_pitch_name league_avg))"

subsection \<open>Sample data\<close>

text \<open>
  Six pitches of the 2024 season: three four-seam fastballs and a slider by one
  pitcher, a pitch of his whose type is missing, and a pitch of an unknown type
  \<open>XY\<close> by another pitcher.
\<close>

definition sample_pitches :: "pitch_event list" where
  "sample_pitches =
     [\<lparr>player_name = Some (str ''Cole, Gerrit''), game_year = 2024,
       pitch_type = Some (str ''FF''), events = Some (str ''strikeout'')\<rparr>,
      \<lparr>player_name = Some (str ''Cole, Gerrit''), game_year = 2024,
       pitch_type = Some (str ''FF''), events = None\<rparr>,
      \<lparr>player_name = Some (str ''Cole, Gerrit''), game_year = 2024,
       pitch_type = Some (str ''FF''), events = Some (str ''field_out'')\<rparr>,
      \<lparr>player_name = Some (str ''Cole, Gerrit''), game_year = 2024,
       pitch_type = Some (str ''SL''), events = Some (str ''single'')\<rparr>,
      \<lparr>player_name = Some (str ''Cole, Gerrit''), game_year = 2024,
       pitch_type = None, events = Some (str ''strikeout'')\<rparr>,
      \<lparr>player_name = Some (str ''Skenes, Paul''), game_year = 2024,
       pitch_type = Some (str ''XY''), events = Some (str ''force_out'')\<rparr>]"

definition sample_classified :: "classified_event list" where
  "sample_classified =
     [\<lparr>player_name = Some (str ''Cole, Gerrit''), game_year = 2024,
       pitch_type = Some (str ''FF''), events = Some (str ''strikeout''), IsOutPitch = True\<rparr>,
      \<lparr>player_name = Some (str ''Cole, Gerrit''), game_year = 2024,
       pitch_type = Some (str ''FF''), events = None, IsOutPitch = False\<rparr>,
      \<lparr>player_name = Some (str ''Cole, Gerrit''), game_year = 2024,
       pitch_type = Some (str ''FF''), events = Some (str ''field_out''), IsOutPitch = True\<rparr>,
      \<lparr>player_name = Some (str ''Cole, Gerrit''), game_year = 2024,
       pitch_type = Some (str ''SL''), events = Some (str ''single''), IsOutPitch = False\<rparr>,
      \<lparr>player_name = Some (str ''Cole, Gerrit''), game_year = 2024,
       pitch_type = None, events = Some (str ''strikeout''), IsOutPitch = True\<rparr>,
      \<lparr>player_name = Some (str ''Skenes, Paul''), game_year = 2024,
       pitch_type = Some (str ''XY''), events = Some (str ''force_out''), IsOutPitch = True\<rparr>]"

text \<open>
  Three Statcast services: one that raises at every request, one that raises at the
  first request and answers the later ones, and one that answers every request. The
  app as it starts, and the app after a first call at time 0 during which the service
  raised at both requests.
\<close>

definition always_fails :: service where
  "always_fails n start_dt end_dt = Inl (str ''timeout'')"

definition fails_once :: service where
  "fails_once n start_dt end_dt =
     (if n = 0 then Inl (str ''timeout'') else Inr (Table sample_pitches))"

definition always_answers :: service where
  "always_answers n start_dt end_dt = Inr (Table sample_pitches)"

definition new_session :: session where
  "new_session = \<lparr>requests = [], ui = [], cache = Map.empty\<rparr>"

definition after_two_failures :: session where
  "after_two_failures =
     snd (load_statcast_data always_fails 0 60 739000 2024 2024 new_session)"

section \<open>Classification\<close>

lemma isin_out_events:
  "isin cell out_events \<longleftrightarrow>
     cell \<in> Some ` {str ''field_out'', str ''strikeout'', str ''grounded_into_double_play'',
       str ''fielders_choice_out'', str ''force_out'', str ''sac_fly'', str ''sac_bunt'',
       str ''strikeout_double_play'', str ''double_play'', str ''sac_fly_double_play'',
       str ''other_out'', str ''triple_play'', str ''sac_bunt_double_play''}"
  unfolding isin_def out_events_def list.set by (cases cell) auto

lemma distinct_out_events: "distinct out_events \<and> length out_events = 13"
  by (simp add: out_events_def)

text \<open>
  C1. On a table of pitch events \<open>calculate_out_percentage\<close> returns, without raising,
  a table with one row for each input row, in the same order and with the same four
  columns; the new column \<open>IsOutPitch\<close> of a row is true exactly when its \<open>events\<close> cell
  is one of the thirteen out events, and false when the cell is missing.
\<close>

theorem calculate_out_percentage_classifies:
  "\<exists>out. calculate_out_percentage (Table rows) = Inr (Table out) \<and>
     list_all2 (\<lambda>e c. player_name c = player_name e \<and> game_year c = game_year e \<and>
                      pitch_type c = pitch_type e \<and> events c = events e \<and>
                      (IsOutPitch c \<longleftrightarrow>
                         events e \<in> Some ` {str ''field_out'', str ''strikeout'',
                           str ''grounded_into_double_play'', str ''fielders_choice_out'',
                           str ''force_out'', str ''sac_fly'', str ''sac_bunt'',
                           str ''strikeout_double_play'', str ''double_play'',
                           str ''sac_fly_double_play'', str ''other_out'', str ''triple_play'',
                           str ''sac_bunt_double_play''}) \<and>
                      (events e = None \<longrightarrow> \<not> IsOutPitch c))
       rows out"
proof -
  have "list_all2 (\<lambda>e c. player_name c = player_name e \<and> game_year c = game_year e \<and>
                      pitch_type c = pitch_type e \<and> events c = events e \<and>
                      (IsOutPitch c \<longleftrightarrow>
                         events e \<in> Some ` {str ''field_out'', str ''strikeout'',
                           str ''grounded_into_double_play'', str ''fielders_choice_out'',
                           str ''force_out'', str ''sac_fly'', str ''sac_bunt'',
                           str ''strikeout_double_play'', str ''double_play'',
                           str ''sac_fly_double_play'', str ''other_out'', str ''triple_play'',
                           str ''sac_bunt_double_play''}) \<and>
                      (events e = None \<longrightarrow> \<not> IsOutPitch c))
       rows (map (\<lambda>e. \<lparr>player_name = player_name e, game_year = game_year e,
                            pitch_type = pitch_type e, events = events e,
                            IsOutPitch = isin (events e) out_events\<rparr>) rows)"
    unfolding list_all2_map2
    by (rule list_all2_refl)
      (simp only: isin_out_events classified_event.simps pitch_event.simps, auto)
  then show ?thesis by simp
qed

theorem calculate_out_percentage_classifies_witness:
  "calculate_out_percentage (Table sample_pitches) = Inr (Table sample_classified) \<and>
   map IsOutPitch sample_classified = [True, False, True, False, True, True]"
  using calculate_out_percentage_classifies [of sample_pitches]
  by (simp add: sample_pitches_def sample_classified_def isin_def out_events_def)

section \<open>Groups and rows of the result\<close>

lemma set_map_filter_Some: "set (List.map_filter f xs) = {k. Some k \<in> f ` set xs}"
  by (induction xs) (auto split: option.splits)

lemma set_group_keys: "set (group_keys df) = {k. Some k \<in> pitch_type ` set df}"
  by (simp add: group_keys_def set_map_filter_Some)

lemma distinct_group_keys: "distinct (group_keys df)"
  by (simp add: group_keys_def)

lemma group_of_nonempty: "k \<in> set (group_keys df) \<Longrightarrow> group_of df k \<noteq> []"
  by (auto simp: set_group_keys group_of_def filter_empty_conv image_iff)

lemma outs_bounds:
  "0 \<le> (\<Sum>e\<leftarrow>g. if IsOutPitch e then 1 else (0::int)) \<and>
   (\<Sum>e\<leftarrow>g. if IsOutPitch e then 1 else (0::int)) \<le> int (length g)"
  by (induction g) auto

lemma rint_near: "\<bar>of_int (rint q) - q\<bar> \<le> 1 / 2"
  unfolding rint_def Let_def by (auto simp: abs_if) linarith+

lemma result_rows:
  "add_pitch_name (filter (\<lambda>r. m \<le> total_pitches r)
       (add_out_percentage (groupby_pitch_type_agg df))) =
   map (\<lambda>k. \<lparr>pitch_type_key = k,
               out_pitch_count = (\<Sum>e\<leftarrow>group_of df k. if IsOutPitch e then 1 else 0),
               total_pitches = int (length (group_of df k)),
               out_percentage =
                 round2 (mul (truediv (\<Sum>e\<leftarrow>group_of df k. if IsOutPitch e then 1 else 0)
                                      (int (length (group_of df k)))) 100),
               pitch_name = get_or_self pitch_type_map k\<rparr>)
       (filter (\<lambda>k. m \<le> int (length (group_of df k))) (group_keys df))"
  by (simp add: add_pitch_name_def add_out_percentage_def groupby_pitch_type_agg_def
      filter_map o_def Let_def)

lemma in_result:
  "r \<in> set (add_pitch_name (filter (\<lambda>r. m \<le> total_pitches r)
                (add_out_percentage (groupby_pitch_type_agg df)))) \<longleftrightarrow>
     (\<exists>k. Some k \<in> pitch_type ` set df \<and> m \<le> int (length (group_of df k)) \<and>
          r = \<lparr>pitch_type_key = k,
               out_pitch_count = (\<Sum>e\<leftarrow>group_of df k. if IsOutPitch e then 1 else 0),
               total_pitches = int (length (group_of df k)),
               out_percentage =
                 round2 (mul (truediv (\<Sum>e\<leftarrow>group_of df k. if IsOutPitch e then 1 else 0)
                                      (int (length (group_of df k)))) 100),
               pitch_name = get_or_self pitch_type_map k\<rparr>)"
  unfolding result_rows set_map set_filter image_iff
  by (auto simp: set_group_keys)

lemma by_pitch_type_Inr:
  "get_out_percentage_by_pitch_type data p y m = Inr rows \<longleftrightarrow>
     (\<exists>d. data = Table d \<and>
          rows = add_pitch_name (filter (\<lambda>r. m \<le> total_pitches r)
                   (add_out_percentage (groupby_pitch_type_agg
                      (filter (\<lambda>e. player_name e = Some p \<and> game_year e = y) d)))))"
  by (cases data) (auto simp: Let_def)

lemma league_avg_Inr:
  "get_league_avg_out_percentage data y m = Inr rows \<longleftrightarrow>
     (\<exists>d. data = Table d \<and>
          rows = add_pitch_name (filter (\<lambda>r. m \<le> total_pitches r)
                   (add_out_percentage (groupby_pitch_type_agg
                      (filter (\<lambda>e. game_year e = y) d)))))"
  by (cases data) (auto simp: Let_def)

lemma either_row:
  assumes "get_out_percentage_by_pitch_type data p y m = Inr rows \<or>
           get_league_avg_out_percentage data y m = Inr rows"
    and "r \<in> set rows"
  obtains df k where
    "Some k \<in> pitch_type ` set df" "m \<le> int (length (group_of df k))"
    "r = \<lparr>pitch_type_key = k,
          out_pitch_count = (\<Sum>e\<leftarrow>group_of df k. if IsOutPitch e then 1 else 0),
          total_pitches = int (length (group_of df k)),
          out_percentage =
            round2 (mul (truediv (\<Sum>e\<leftarrow>group_of df k. if IsOutPitch e then 1 else 0)
                                 (int (length (group_of df k)))) 100),
          pitch_name = get_or_self pitch_type_map k\<rparr>"
proof -
  from assms(1) obtain df where
    "rows = add_pitch_name (filter (\<lambda>r. m \<le> total_pitches r)
              (add_out_percentage (groupby_pitch_type_agg df)))"
    unfolding by_pitch_type_Inr league_avg_Inr by blast
  with assms(2) show thesis
    using that by (auto simp only: in_result)
qed

lemma group_of_pos: "Some k \<in> pitch_type ` set df \<Longrightarrow> 1 \<le> int (length (group_of df k))"
proof -
  assume "Some k \<in> pitch_type ` set df"
  then have "group_of df k \<noteq> []"
    by (auto simp: group_of_def filter_empty_conv image_iff)
  then show ?thesis by (cases "group_of df k") auto
qed

subsection \<open>Accuracy of the \<open>float64\<close> operations\<close>

lemma exponent_le:
  assumes "0 < x"
  shows "2 powi exponent x \<le> x"
proof (cases "1 \<le> x")
  case True
  then have m: "0 < \<lfloor>x\<rfloor>" by simp
  from bitlen_bounds [OF m] have "2 ^ nat (bitlen \<lfloor>x\<rfloor> - 1) \<le> \<lfloor>x\<rfloor>" by blast
  then have "(of_int (2 ^ nat (bitlen \<lfloor>x\<rfloor> - 1)) :: rat) \<le> of_int \<lfloor>x\<rfloor>"
    by (simp only: of_int_le_iff)
  also have "\<dots> \<le> x" by simp
  finally have "(2 :: rat) ^ nat (bitlen \<lfloor>x\<rfloor> - 1) \<le> x" by simp
  moreover have "0 \<le> bitlen \<lfloor>x\<rfloor> - 1"
    using m by (simp add: bitlen_alt_def)
  ultimately show ?thesis using True by (simp add: exponent_def power_int_def)
next
  case False
  with assms have y: "1 < 1 / x" by simp
  define c where "c = \<lceil>1 / x\<rceil>"
  have "1 / x \<le> of_int c" by (simp add: c_def)
  with y have "1 < c" by linarith
  then have p: "0 < c - 1" by simp
  define k where "k = bitlen (c - 1)"
  from bitlen_bounds [OF p] have "c - 1 < 2 ^ nat k" by (simp add: k_def)
  then have "c \<le> 2 ^ nat k" by simp
  then have "(of_int c :: rat) \<le> of_int (2 ^ nat k)" by (simp only: of_int_le_iff)
  then have "(of_int c :: rat) \<le> 2 ^ nat k" by simp
  with \<open>1 / x \<le> of_int c\<close> have "1 / x \<le> 2 ^ nat k" by (rule order_trans)
  with assms have "1 / 2 ^ nat k \<le> x" by (simp add: field_simps)
  moreover have "0 < k"
    using \<open>c - 1 < 2 ^ nat k\<close> p by (cases "k \<le> 0") auto
  ultimately show ?thesis using False
    by (simp add: exponent_def power_int_def c_def [symmetric] k_def [symmetric]
        power_one_over inverse_eq_divide)
qed

lemma binary64_error: "\<bar>binary64 x - x\<bar> \<le> \<bar>x\<bar> / 2 ^ 53"
proof (cases "x = 0")
  case True
  then show ?thesis by (simp add: binary64_def)
next
  case False
  define e where "e = exponent \<bar>x\<bar>"
  define s :: rat where "s = 2 powi (52 - e)"
  have s: "0 < s" by (simp add: s_def zero_less_power_int)
  have b: "binary64 x = of_int (rint (x * s)) / s"
    using False by (simp add: binary64_def s_def e_def Let_def)
  have "\<bar>of_int (rint (x * s)) - x * s\<bar> \<le> 1 / 2" by (rule rint_near)
  then have "\<bar>of_int (rint (x * s)) - x * s\<bar> / s \<le> (1 / 2) / s"
    using s by (intro divide_right_mono) simp_all
  moreover have "\<bar>of_int (rint (x * s)) - x * s\<bar> / s = \<bar>binary64 x - x\<bar>"
    using s by (simp add: b abs_if field_simps)
  ultimately have 1: "\<bar>binary64 x - x\<bar> \<le> 1 / (2 * s)" by simp
  have "s = 2 ^ 52 / 2 powi e" by (simp add: s_def power_int_diff)
  then have "1 / (2 * s) = 2 powi e / 2 ^ 53" by simp
  also have "\<dots> \<le> \<bar>x\<bar> / 2 ^ 53"
    using exponent_le [of "\<bar>x\<bar>"] False by (simp add: e_def divide_right_mono)
  finally show ?thesis using 1 by simp
qed

lemma binary64_bounds:
  assumes "0 \<le> x"
  shows "(1 - 1 / 2 ^ 53) * x \<le> binary64 x" "binary64 x \<le> (1 + 1 / 2 ^ 53) * x"
  using binary64_error [of x] assms by (simp_all add: abs_if field_simps split: if_splits)

lemma binary64_nonneg: "0 \<le> x \<Longrightarrow> 0 \<le> binary64 x"
proof -
  assume x: "0 \<le> x"
  then have "(1 - 1 / 2 ^ 53) * x \<le> binary64 x" by (rule binary64_bounds)
  moreover have "0 \<le> (1 - 1 / 2 ^ 53) * x" using x by simp
  ultimately show ?thesis by simp
qed

lemma binary64_upper:
  assumes "0 \<le> y" "y \<le> k"
  shows "binary64 y \<le> (1 + 1 / 2 ^ 53) * k"
proof -
  have "binary64 y \<le> (1 + 1 / 2 ^ 53) * y" using assms(1) by (rule binary64_bounds)
  also have "\<dots> \<le> (1 + 1 / 2 ^ 53) * k" using assms(2) by (intro mult_left_mono) simp_all
  finally show ?thesis .
qed

lemma binary64_lower:
  assumes "0 \<le> k" "k \<le> y"
  shows "(1 - 1 / 2 ^ 53) * k \<le> binary64 y"
proof -
  have "(1 - 1 / 2 ^ 53) * k \<le> (1 - 1 / 2 ^ 53) * y"
    using assms(2) by (intro mult_left_mono) simp_all
  also have "\<dots> \<le> binary64 y" using assms by (intro binary64_bounds) simp
  finally show ?thesis .
qed

lemma error_constant_upper:
  "(1 + 1 / 2 ^ 53) ^ 4 / (1 - 1 / 2 ^ 53) * 10000 \<le> (10000 + 1 / 10 ^ 11 :: rat)"
  by (simp add: power4_eq_xxxx)

lemma error_constant_lower:
  "(10000 - 1 / 10 ^ 11 :: rat) \<le> (1 - 1 / 2 ^ 53) ^ 4 / (1 + 1 / 2 ^ 53) * 10000"
  by (simp add: power4_eq_xxxx)

lemma scaled_quotient_accuracy:
  assumes a: "0 \<le> a" and ab: "a \<le> b" and b: "1 \<le> (b::int)"
  defines "x \<equiv> binary64 (binary64 (binary64 (binary64 (of_int a) / binary64 (of_int b)) * 100) * 100)"
  shows "\<bar>x - 10000 * of_int a / of_int b\<bar> \<le> 1 / 10 ^ 11"
proof -
  define u :: rat where "u = 1 / 2 ^ 53"
  define c :: rat where "c = of_int a / of_int b"
  have c: "0 \<le> c" "c \<le> 1" using a ab b by (simp_all add: c_def)
  define A where "A = binary64 (of_int a)"
  define B where "B = binary64 (of_int b)"
  have A: "(1 - u) * of_int a \<le> A" "A \<le> (1 + u) * of_int a"
    unfolding A_def u_def by (rule binary64_bounds, use a in simp)+
  have B: "(1 - u) * of_int b \<le> B" "B \<le> (1 + u) * of_int b"
    unfolding B_def u_def by (rule binary64_bounds, use b in simp)+
  have bpos: "(0::rat) < (1 - u) * of_int b" using b by (simp add: u_def)
  then have Bpos: "0 < B" using B(1) by simp
  have A0: "0 \<le> A" using a by (simp add: A_def binary64_nonneg)
  have q_up: "A / B \<le> (1 + u) / (1 - u) * c"
  proof -
    have "A / B \<le> ((1 + u) * of_int a) / ((1 - u) * of_int b)"
      using A(2) B(1) bpos a by (intro frac_le) (simp_all add: u_def)
    then show ?thesis by (simp add: c_def)
  qed
  have q_lo: "(1 - u) / (1 + u) * c \<le> A / B"
  proof -
    have "((1 - u) * of_int a) / ((1 + u) * of_int b) \<le> A / B"
      using A(1) B(2) Bpos a A0 by (intro frac_le) (simp_all add: u_def)
    then show ?thesis by (simp add: c_def)
  qed
  have q0: "0 \<le> A / B" using A0 Bpos by simp
  have u: "0 < u" "u < 1" by (simp_all add: u_def)
  have up1: "\<And>y k. 0 \<le> y \<Longrightarrow> y \<le> k \<Longrightarrow> binary64 y \<le> (1 + u) * k"
    unfolding u_def by (rule binary64_upper)
  have lo1: "\<And>y k. 0 \<le> k \<Longrightarrow> k \<le> y \<Longrightarrow> (1 - u) * k \<le> binary64 y"
    unfolding u_def by (rule binary64_lower)
  define x1 where "x1 = binary64 (A / B)"
  define l0 where "l0 = (1 - u) / (1 + u) * c"
  define l1 where "l1 = (1 - u) * l0"
  define l2 where "l2 = (1 - u) * (l1 * 100)"
  have l: "0 \<le> l0" "0 \<le> l1" "0 \<le> l2" using u c by (simp_all add: l0_def l1_def l2_def)
  have x1_0: "0 \<le> x1" unfolding x1_def using q0 by (rule binary64_nonneg)
  have x1_up: "x1 \<le> (1 + u) * ((1 + u) / (1 - u) * c)"
    unfolding x1_def using q0 q_up by (rule up1)
  have x1_lo: "l1 \<le> x1"
    unfolding x1_def l1_def using l(1) q_lo [folded l0_def] by (rule lo1)
  define x2 where "x2 = binary64 (x1 * 100)"
  have m1: "0 \<le> x1 * 100" using x1_0 by simp
  have m1_up: "x1 * 100 \<le> (1 + u) * ((1 + u) / (1 - u) * c) * 100"
    using x1_up by (rule mult_right_mono) simp
  have m1_lo: "l1 * 100 \<le> x1 * 100" using x1_lo by (rule mult_right_mono) simp
  have m1_l: "0 \<le> l1 * 100" using l(2) by simp
  have x2_0: "0 \<le> x2" unfolding x2_def using m1 by (rule binary64_nonneg)
  have x2_up: "x2 \<le> (1 + u) * ((1 + u) * ((1 + u) / (1 - u) * c) * 100)"
    unfolding x2_def using m1 m1_up by (rule up1)
  have x2_lo: "l2 \<le> x2"
    unfolding x2_def l2_def using m1_l m1_lo by (rule lo1)
  have m2: "0 \<le> x2 * 100" using x2_0 by simp
  have m2_up: "x2 * 100 \<le> (1 + u) * ((1 + u) * ((1 + u) / (1 - u) * c) * 100) * 100"
    using x2_up by (rule mult_right_mono) simp
  have m2_lo: "l2 * 100 \<le> x2 * 100" using x2_lo by (rule mult_right_mono) simp
  have m2_l: "0 \<le> l2 * 100" using l(3) by simp
  have x: "x = binary64 (x2 * 100)" by (simp add: x_def x2_def x1_def A_def B_def)
  have x3: "x \<le> (1 + u) * ((1 + u) * ((1 + u) * ((1 + u) / (1 - u) * c) * 100) * 100)"
    "(1 - u) * ((1 - u) * ((1 - u) * ((1 - u) / (1 + u) * c) * 100) * 100) \<le> x"
  proof -
    show "x \<le> (1 + u) * ((1 + u) * ((1 + u) * ((1 + u) / (1 - u) * c) * 100) * 100)"
      unfolding x using m2 m2_up by (rule up1)
    have "(1 - u) * (l2 * 100) \<le> x"
      unfolding x using m2_l m2_lo by (rule lo1)
    then show "(1 - u) * ((1 - u) * ((1 - u) * ((1 - u) / (1 + u) * c) * 100) * 100) \<le> x"
      by (simp only: l2_def l1_def l0_def)
  qed
  have up: "(1 + u) * ((1 + u) * ((1 + u) * ((1 + u) / (1 - u) * c) * 100) * 100)
      \<le> 10000 * c + 1 / 10 ^ 11"
  proof -
    have "(1 + u) * ((1 + u) * ((1 + u) * ((1 + u) / (1 - u) * c) * 100) * 100) =
        ((1 + u) ^ 4 / (1 - u) * 10000) * c"
      by (simp add: power4_eq_xxxx)
    also have "\<dots> \<le> (10000 + 1 / 10 ^ 11) * c"
      using error_constant_upper [folded u_def] c(1) by (rule mult_right_mono)
    also have "\<dots> \<le> 10000 * c + 1 / 10 ^ 11" using c by (simp add: algebra_simps)
    finally show ?thesis .
  qed
  have lo: "10000 * c - 1 / 10 ^ 11
      \<le> (1 - u) * ((1 - u) * ((1 - u) * ((1 - u) / (1 + u) * c) * 100) * 100)"
  proof -
    have "10000 * c - 1 / 10 ^ 11 \<le> (10000 - 1 / 10 ^ 11) * c" using c by (simp add: algebra_simps)
    also have "\<dots> \<le> ((1 - u) ^ 4 / (1 + u) * 10000) * c"
      using error_constant_lower [folded u_def] c(1) by (rule mult_right_mono)
    also have "\<dots> = (1 - u) * ((1 - u) * ((1 - u) * ((1 - u) / (1 + u) * c) * 100) * 100)"
      by (simp add: power4_eq_xxxx)
    finally show ?thesis .
  qed
  from x3 up lo have "x \<le> 10000 * c + 1 / 10 ^ 11" "10000 * c - 1 / 10 ^ 11 \<le> x"
    by linarith+
  then have "\<bar>x - 10000 * c\<bar> \<le> 1 / 10 ^ 11" by (simp only: abs_le_iff) linarith
  then show ?thesis by (simp add: c_def)
qed

lemma percentage_rounded:
  assumes "0 \<le> a" "a \<le> b" "1 \<le> (b::int)"
  shows "\<exists>n::int. round2 (mul (truediv a b) 100) = Fin (binary64 (of_int n / 100)) \<and>
      \<bar>of_int n - 10000 * of_int a / (of_int b :: rat)\<bar> \<le> 1 / 2 + 1 / 10 ^ 11 \<and>
      (b < 5 * 10 ^ 10 \<longrightarrow>
         \<bar>of_int n / 100 - (of_int a / of_int b * 100 :: rat)\<bar> \<le> 1 / 200)"
proof -
  define x where
    "x = binary64 (binary64 (binary64 (binary64 (of_int a) / binary64 (of_int b)) * 100) * 100)"
  define n where "n = rint x"
  have r: "round2 (mul (truediv a b) 100) = Fin (binary64 (of_int n / 100))"
    using assms(3) by (simp add: truediv_def mul_def round2_def n_def x_def)
  have e: "\<bar>x - 10000 * of_int a / of_int b\<bar> \<le> 1 / 10 ^ 11"
    unfolding x_def using assms by (rule scaled_quotient_accuracy)
  have "\<bar>of_int n - x\<bar> \<le> 1 / 2" unfolding n_def by (rule rint_near)
  with e have d: "\<bar>of_int n - 10000 * of_int a / (of_int b :: rat)\<bar> \<le> 1 / 2 + 1 / 10 ^ 11"
    by linarith
  have s: "\<bar>of_int n / 100 - (of_int a / of_int b * 100 :: rat)\<bar> \<le> 1 / 200"
    if small: "b < 5 * 10 ^ 10"
  proof -
    define k where "k = 2 * (n * b - 10000 * a)"
    have bpos: "(0::rat) < of_int b" using assms(3) by simp
    have "\<bar>of_int n - 10000 * of_int a / (of_int b :: rat)\<bar> * of_int b
        \<le> (1 / 2 + 1 / 10 ^ 11) * of_int b"
      using d bpos by (intro mult_right_mono) simp_all
    moreover have kk: "\<bar>of_int n - 10000 * of_int a / (of_int b :: rat)\<bar> * of_int b =
        \<bar>of_int k :: rat\<bar> / 2"
    proof -
      have "(of_int n - 10000 * of_int a / of_int b) * of_int b = (of_int k :: rat) / 2"
        using bpos by (simp add: k_def field_simps)
      then have "\<bar>(of_int n - 10000 * of_int a / of_int b) * of_int b\<bar> =
          \<bar>(of_int k :: rat) / 2\<bar>"
        by (rule arg_cong)
      then show ?thesis using bpos by (simp add: abs_mult)
    qed
    ultimately have "\<bar>of_int k :: rat\<bar> \<le> of_int b + 2 * of_int b / 10 ^ 11" by simp
    also have "\<dots> < of_int b + 1"
    proof -
      have "(of_int b :: rat) < 5 * 10 ^ 10" using small by (simp add: of_int_less_iff [symmetric] del: of_int_less_iff)
      then show ?thesis by simp
    qed
    finally have "(of_int \<bar>k\<bar> :: rat) < of_int (b + 1)" by simp
    then have "\<bar>k\<bar> < b + 1" by (simp only: of_int_less_iff)
    then have "\<bar>k\<bar> \<le> b" by simp
    then have "(of_int \<bar>k\<bar> :: rat) \<le> of_int b" by (simp only: of_int_le_iff)
    then have "\<bar>of_int k :: rat\<bar> / 2 / of_int b \<le> 1 / 2"
      using bpos by (simp add: field_simps)
    moreover have "\<bar>of_int k :: rat\<bar> / 2 / of_int b =
        \<bar>of_int n - 10000 * of_int a / (of_int b :: rat)\<bar>"
      using bpos by (simp add: kk [symmetric])
    ultimately have "\<bar>of_int n - 10000 * of_int a / (of_int b :: rat)\<bar> \<le> 1 / 2" by simp
    then show ?thesis by (simp add: abs_le_iff field_simps)
  qed
  from r d s show ?thesis by blast
qed

text \<open>
  C2. In every row that either aggregation function returns, the count of out pitches
  lies between 0 and the count of pitches, and the percentage is the quotient of the
  two counts, times 100, rounded to two decimals, as \<open>float64\<close> arithmetic computes
  it: it is the \<open>float64\<close> nearest to a number \<open>n\<close> of hundredths, where \<open>n\<close> differs
  from the exact percentage in hundredths by at most a half plus the rounding error
  of the operations, which is below \<open>1 / 10 ^ 11\<close>. With fewer than \<open>5 * 10 ^ 10\<close>
  pitches in the group, \<open>n\<close> hundredths are within 0.005 of the exact percentage: one
  of its roundings to two decimals, a tie going either way.
\<close>

theorem out_percentage_of_counts:
  assumes "get_out_percentage_by_pitch_type data player year min_pitches = Inr rows \<or>
           get_league_avg_out_percentage data year min_pitches = Inr rows"
    and "r \<in> set rows"
  shows "0 \<le> out_pitch_count r \<and> out_pitch_count r \<le> total_pitches r \<and>
         out_percentage r = round2 (mul (truediv (out_pitch_count r) (total_pitches r)) 100) \<and>
         (\<exists>n::int. out_percentage r = Fin (binary64 (of_int n / 100)) \<and>
            \<bar>of_int n - 10000 * of_int (out_pitch_count r) / (of_int (total_pitches r) :: rat)\<bar>
              \<le> 1 / 2 + 1 / 10 ^ 11 \<and>
            (total_pitches r < 5 * 10 ^ 10 \<longrightarrow>
               \<bar>of_int n / 100 -
                (of_int (out_pitch_count r) / of_int (total_pitches r) * 100 :: rat)\<bar>
                 \<le> 1 / 200))"
proof -
  from assms obtain df k where k: "Some k \<in> pitch_type ` set df"
    and r: "r = \<lparr>pitch_type_key = k,
          out_pitch_count = (\<Sum>e\<leftarrow>group_of df k. if IsOutPitch e then 1 else 0),
          total_pitches = int (length (group_of df k)),
          out_percentage =
            round2 (mul (truediv (\<Sum>e\<leftarrow>group_of df k. if IsOutPitch e then 1 else 0)
                                 (int (length (group_of df k)))) 100),
          pitch_name = get_or_self pitch_type_map k\<rparr>"
    by (rule either_row)
  have pos: "1 \<le> total_pitches r" using group_of_pos [OF k] by (simp add: r)
  have b: "0 \<le> out_pitch_count r" "out_pitch_count r \<le> total_pitches r"
    using outs_bounds [of "group_of df k"] by (simp_all add: r)
  have p: "out_percentage r = round2 (mul (truediv (out_pitch_count r) (total_pitches r)) 100)"
    by (simp add: r)
  from percentage_rounded [OF b pos] p b show ?thesis by simp
qed

lemma league_sample_2:
  "get_league_avg_out_percentage (Table sample_classified) 2024 2 =
     Inr [\<lparr>pitch_type_key = str ''FF'', out_pitch_count = 2, total_pitches = 3,
           out_percentage = Fin (binary64 (6667 / 100)), pitch_name = str ''Four-Seam Fastball''\<rparr>]"
  by code_simp

lemma league_sample_1:
  "get_league_avg_out_percentage (Table sample_classified) 2024 1 =
     Inr [\<lparr>pitch_type_key = str ''FF'', out_pitch_count = 2, total_pitches = 3,
           out_percentage = Fin (binary64 (6667 / 100)), pitch_name = str ''Four-Seam Fastball''\<rparr>,
          \<lparr>pitch_type_key = str ''SL'', out_pitch_count = 0, total_pitches = 1,
           out_percentage = Fin 0, pitch_name = str ''Slider''\<rparr>,
          \<lparr>pitch_type_key = str ''XY'', out_pitch_count = 1, total_pitches = 1,
           out_percentage = Fin 100, pitch_name = str ''XY''\<rparr>]"
  by code_simp

lemma player_sample_1:
  "get_out_percentage_by_pitch_type (Table sample_classified) (str ''Cole, Gerrit'') 2024 1 =
     Inr [\<lparr>pitch_type_key = str ''FF'', out_pitch_count = 2, total_pitches = 3,
           out_percentage = Fin (binary64 (6667 / 100)), pitch_name = str ''Four-Seam Fastball''\<rparr>,
          \<lparr>pitch_type_key = str ''SL'', out_pitch_count = 0, total_pitches = 1,
           out_percentage = Fin 0, pitch_name = str ''Slider''\<rparr>]"
  by code_simp

lemma round2_samples:
  "round2 (mul (truediv 2 3) 100) = Fin (binary64 (6667 / 100))"
  "round2 (mul (truediv 23 160) 100) = Fin (binary64 (1437 / 100))"
  "round2 (mul (truediv 49 160) 100) = Fin (binary64 (3063 / 100))"
  by code_simp+

theorem out_percentage_of_counts_witness:
  "get_league_avg_out_percentage (Table sample_classified) 2024 2 =
     Inr [\<lparr>pitch_type_key = str ''FF'', out_pitch_count = 2, total_pitches = 3,
           out_percentage = Fin (binary64 (6667 / 100)),
           pitch_name = str ''Four-Seam Fastball''\<rparr>] \<and>
   Fin (binary64 (6667 / 100)) = round2 (mul (truediv 2 3) 100) \<and>
   \<bar>6667 / 100 - (2 / 3 * 100 :: rat)\<bar> \<le> 1 / 200 \<and>
   round2 (mul (truediv 23 160) 100) = Fin (binary64 (1437 / 100)) \<and>
   round2 (mul (truediv 49 160) 100) = Fin (binary64 (3063 / 100))"
  using out_percentage_of_counts [OF disjI2 [OF league_sample_2], of
      "\<lparr>pitch_type_key = str ''FF'', out_pitch_count = 2, total_pitches = 3,
           out_percentage = Fin (binary64 (6667 / 100)),
           pitch_name = str ''Four-Seam Fastball''\<rparr>"]
    round2_samples
  by (intro conjI) (rule league_sample_2, simp_all)

lemma group_of_filter:
  "group_of (filter P d) k = filter (\<lambda>e. P e \<and> pitch_type e = Some k) d"
  by (simp add: group_of_def)

lemma key_in_result:
  "k \<in> pitch_type_key ` set (add_pitch_name (filter (\<lambda>r. m \<le> total_pitches r)
          (add_out_percentage (groupby_pitch_type_agg df)))) \<longleftrightarrow>
   1 \<le> int (length (group_of df k)) \<and> m \<le> int (length (group_of df k))"
proof -
  have "Some k \<in> pitch_type ` set df \<longleftrightarrow> 1 \<le> int (length (group_of df k))"
  proof
    assume "Some k \<in> pitch_type ` set df"
    then show "1 \<le> int (length (group_of df k))" by (rule group_of_pos)
  next
    assume "1 \<le> int (length (group_of df k))"
    then have "group_of df k \<noteq> []" by auto
    then obtain e where "e \<in> set df" "pitch_type e = Some k"
      by (auto simp: group_of_def filter_empty_conv)
    then show "Some k \<in> pitch_type ` set df"
      by (intro image_eqI [of _ _ e]) simp_all
  qed
  then show ?thesis
    unfolding result_rows by (auto simp: set_group_keys image_iff)
qed

text \<open>
  C3. No row of either result has fewer pitches than \<open>min_pitches\<close>. A pitch type
  has a row in the result exactly when the selected events hold at least one pitch of
  that type and at least \<open>min_pitches\<close> of them: a group below the threshold has no
  row at all.
\<close>

theorem threshold_law:
  "(get_out_percentage_by_pitch_type data player year min_pitches = Inr rows \<or>
    get_league_avg_out_percentage data year min_pitches = Inr rows \<longrightarrow>
      (\<forall>r\<in>set rows. min_pitches \<le> total_pitches r)) \<and>
   (\<exists>rows1. get_out_percentage_by_pitch_type (Table d) player year min_pitches = Inr rows1 \<and>
      (\<forall>k. k \<in> pitch_type_key ` set rows1 \<longleftrightarrow>
         (let n = int (length (filter (\<lambda>e. (player_name e = Some player \<and> game_year e = year) \<and>
                                          pitch_type e = Some k) d))
          in 1 \<le> n \<and> min_pitches \<le> n))) \<and>
   (\<exists>rows2. get_league_avg_out_percentage (Table d) year min_pitches = Inr rows2 \<and>
      (\<forall>k. k \<in> pitch_type_key ` set rows2 \<longleftrightarrow>
         (let n = int (length (filter (\<lambda>e. game_year e = year \<and> pitch_type e = Some k) d))
          in 1 \<le> n \<and> min_pitches \<le> n)))"
proof (intro conjI impI ballI)
  fix r
  assume a: "get_out_percentage_by_pitch_type data player year min_pitches = Inr rows \<or>
    get_league_avg_out_percentage data year min_pitches = Inr rows" and r: "r \<in> set rows"
  from a r obtain df k where "min_pitches \<le> int (length (group_of df k))"
    and "r = \<lparr>pitch_type_key = k,
          out_pitch_count = (\<Sum>e\<leftarrow>group_of df k. if IsOutPitch e then 1 else 0),
          total_pitches = int (length (group_of df k)),
          out_percentage =
            round2 (mul (truediv (\<Sum>e\<leftarrow>group_of df k. if IsOutPitch e then 1 else 0)
                                 (int (length (group_of df k)))) 100),
          pitch_name = get_or_self pitch_type_map k\<rparr>"
    by (rule either_row)
  then show "min_pitches \<le> total_pitches r" by simp
next
  show "\<exists>rows1. get_out_percentage_by_pitch_type (Table d) player year min_pitches = Inr rows1 \<and>
      (\<forall>k. k \<in> pitch_type_key ` set rows1 \<longleftrightarrow>
         (let n = int (length (filter (\<lambda>e. (player_name e = Some player \<and> game_year e = year) \<and>
                                          pitch_type e = Some k) d))
          in 1 \<le> n \<and> min_pitches \<le> n))"
    by (intro exI conjI allI)
      (simp only: get_out_percentage_by_pitch_type.simps Let_def,
       simp only: key_in_result group_of_filter Let_def)
next
  show "\<exists>rows2. get_league_avg_out_percentage (Table d) year min_pitches = Inr rows2 \<and>
      (\<forall>k. k \<in> pitch_type_key ` set rows2 \<longleftrightarrow>
         (let n = int (length (filter (\<lambda>e. game_year e = year \<and> pitch_type e = Some k) d))
          in 1 \<le> n \<and> min_pitches \<le> n))"
    by (intro exI conjI allI)
      (simp only: get_league_avg_out_percentage.simps Let_def,
       simp only: key_in_result group_of_filter Let_def)
qed

theorem threshold_law_witness:
  "get_league_avg_out_percentage (Table sample_classified) 2024 2 =
     Inr [\<lparr>pitch_type_key = str ''FF'', out_pitch_count = 2, total_pitches = 3,
           out_percentage = Fin (binary64 (6667 / 100)), pitch_name = str ''Four-Seam Fastball''\<rparr>] \<and>
   2 \<le> total_pitches
      \<lparr>pitch_type_key = str ''FF'', out_pitch_count = 2, total_pitches = 3,
           out_percentage = Fin (binary64 (6667 / 100)), pitch_name = str ''Four-Seam Fastball''\<rparr> \<and>
   str ''SL'' \<notin> pitch_type_key ` set [\<lparr>pitch_type_key = str ''FF'', out_pitch_count = 2, total_pitches = 3,
           out_percentage = Fin (binary64 (6667 / 100)), pitch_name = str ''Four-Seam Fastball''\<rparr>]"
proof -
  from threshold_law [of "Table sample_classified" "str ''Cole, Gerrit''" 2024 2
      "[\<lparr>pitch_type_key = str ''FF'', out_pitch_count = 2, total_pitches = 3,
           out_percentage = Fin (binary64 (6667 / 100)), pitch_name = str ''Four-Seam Fastball''\<rparr>]"
      sample_classified] league_sample_2
  have "\<forall>r\<in>set [\<lparr>pitch_type_key = str ''FF'', out_pitch_count = 2, total_pitches = 3,
           out_percentage = Fin (binary64 (6667 / 100)), pitch_name = str ''Four-Seam Fastball''\<rparr>].
      2 \<le> total_pitches r"
    by blast
  then show ?thesis using league_sample_2 by simp
qed

lemma pct_finite: "1 \<le> t \<Longrightarrow> \<exists>q. round2 (mul (truediv a t) 100) = Fin q"
  by (simp add: truediv_def mul_def round2_def)

text \<open>
  C4. Every group that \<open>groupby\<close> forms holds at least one pitch, so the quotient of
  the counts is taken with a positive divisor and is a finite number, in the table
  before the threshold as in the rows returned, for every value of \<open>min_pitches\<close>.
\<close>

theorem division_by_positive_count:
  "(\<forall>g\<in>set (groupby_pitch_type_agg df).
      1 \<le> total_pitches g \<and>
      (\<exists>q. truediv (out_pitch_count g) (total_pitches g) = Fin q)) \<and>
   (\<forall>r\<in>set (add_out_percentage (groupby_pitch_type_agg df)).
      1 \<le> total_pitches r \<and> (\<exists>q. out_percentage r = Fin q)) \<and>
   (get_out_percentage_by_pitch_type data player year min_pitches = Inr rows \<or>
    get_league_avg_out_percentage data year min_pitches = Inr rows \<longrightarrow>
      (\<forall>r\<in>set rows. 1 \<le> total_pitches r \<and> (\<exists>q. out_percentage r = Fin q)))"
proof (intro conjI ballI impI)
  fix g assume "g \<in> set (groupby_pitch_type_agg df)"
  then obtain k where "k \<in> set (group_keys df)"
    and g: "total_pitches g = int (length (group_of df k))"
    by (auto simp: groupby_pitch_type_agg_def Let_def)
  then have "1 \<le> total_pitches g" using group_of_pos [of k df] by (simp add: set_group_keys)
  then show "1 \<le> total_pitches g" "\<exists>q. truediv (out_pitch_count g) (total_pitches g) = Fin q"
    by (simp_all add: truediv_def)
next
  fix r assume "r \<in> set (add_out_percentage (groupby_pitch_type_agg df))"
  then obtain k where "k \<in> set (group_keys df)"
    and t: "total_pitches r = int (length (group_of df k))"
    and p: "out_percentage r = round2 (mul (truediv (out_pitch_count r) (total_pitches r)) 100)"
    by (auto simp: add_out_percentage_def groupby_pitch_type_agg_def Let_def)
  then have "1 \<le> total_pitches r" using group_of_pos [of k df] by (simp add: set_group_keys)
  then show "1 \<le> total_pitches r" "\<exists>q. out_percentage r = Fin q"
    using pct_finite [of "total_pitches r" "out_pitch_count r"] by (simp_all add: p)
next
  fix r
  assume a: "get_out_percentage_by_pitch_type data player year min_pitches = Inr rows \<or>
    get_league_avg_out_percentage data year min_pitches = Inr rows" and r: "r \<in> set rows"
  from a r obtain df k where k: "Some k \<in> pitch_type ` set df"
    and r: "r = \<lparr>pitch_type_key = k,
          out_pitch_count = (\<Sum>e\<leftarrow>group_of df k. if IsOutPitch e then 1 else 0),
          total_pitches = int (length (group_of df k)),
          out_percentage =
            round2 (mul (truediv (\<Sum>e\<leftarrow>group_of df k. if IsOutPitch e then 1 else 0)
                                 (int (length (group_of df k)))) 100),
          pitch_name = get_or_self pitch_type_map k\<rparr>"
    by (rule either_row)
  from group_of_pos [OF k]
  show "1 \<le> total_pitches r" "\<exists>q. out_percentage r = Fin q"
    using pct_finite [of "int (length (group_of df k))"
        "\<Sum>e\<leftarrow>group_of df k. if IsOutPitch e then 1 else 0"]
    by (simp_all add: r)
qed

theorem division_by_positive_count_witness:
  "get_out_percentage_by_pitch_type (Table sample_classified) (str ''Cole, Gerrit'') 2024 1 =
     Inr [\<lparr>pitch_type_key = str ''FF'', out_pitch_count = 2, total_pitches = 3,
           out_percentage = Fin (binary64 (6667 / 100)), pitch_name = str ''Four-Seam Fastball''\<rparr>,
          \<lparr>pitch_type_key = str ''SL'', out_pitch_count = 0, total_pitches = 1,
           out_percentage = Fin 0, pitch_name = str ''Slider''\<rparr>] \<and>
   1 \<le> total_pitches
      \<lparr>pitch_type_key = str ''SL'', out_pitch_count = 0, total_pitches = 1,
           out_percentage = Fin 0, pitch_name = str ''Slider''\<rparr> \<and>
   (\<exists>q. out_percentage
      \<lparr>pitch_type_key = str ''SL'', out_pitch_count = 0, total_pitches = 1,
           out_percentage = Fin 0, pitch_name = str ''Slider''\<rparr> = Fin q)"
proof -
  from division_by_positive_count [of "[]" "Table sample_classified" "str ''Cole, Gerrit''"
      2024 1
      "[\<lparr>pitch_type_key = str ''FF'', out_pitch_count = 2, total_pitches = 3,
           out_percentage = Fin (binary64 (6667 / 100)), pitch_name = str ''Four-Seam Fastball''\<rparr>,
          \<lparr>pitch_type_key = str ''SL'', out_pitch_count = 0, total_pitches = 1,
           out_percentage = Fin 0, pitch_name = str ''Slider''\<rparr>]"] player_sample_1
  have "\<forall>r\<in>set [\<lparr>pitch_type_key = str ''FF'', out_pitch_count = 2, total_pitches = 3,
           out_percentage = Fin (binary64 (6667 / 100)), pitch_name = str ''Four-Seam Fastball''\<rparr>,
          \<lparr>pitch_type_key = str ''SL'', out_pitch_count = 0, total_pitches = 1,
           out_percentage = Fin 0, pitch_name = str ''Slider''\<rparr>].
      1 \<le> total_pitches r \<and> (\<exists>q. out_percentage r = Fin q)"
    by blast
  then show ?thesis using player_sample_1 by simp
qed

section \<open>Display names\<close>

lemma get_or_self_pitch_type_map:
  "(k = str ''FF'' \<longrightarrow> get_or_self pitch_type_map k = str ''Four-Seam Fastball'') \<and>
   (k = str ''SL'' \<longrightarrow> get_or_self pitch_type_map k = str ''Slider'') \<and>
   (k = str ''CH'' \<longrightarrow> get_or_self pitch_type_map k = str ''Changeup'') \<and>
   (k = str ''CU'' \<longrightarrow> get_or_self pitch_type_map k = str ''Curveball'') \<and>
   (k = str ''SI'' \<longrightarrow> get_or_self pitch_type_map k = str ''Sinker'') \<and>
   (k = str ''FC'' \<longrightarrow> get_or_self pitch_type_map k = str ''Cutter'') \<and>
   (k = str ''FS'' \<longrightarrow> get_or_self pitch_type_map k = str ''Splitter'') \<and>
   (k = str ''FT'' \<longrightarrow> get_or_self pitch_type_map k = str ''Two-Seam Fastball'') \<and>
   (k = str ''KC'' \<longrightarrow> get_or_self pitch_type_map k = str ''Knuckle Curve'') \<and>
   (k = str ''EP'' \<longrightarrow> get_or_self pitch_type_map k = str ''Eephus'') \<and>
   (k = str ''KN'' \<longrightarrow> get_or_self pitch_type_map k = str ''Knuckleball'') \<and>
   (k = str ''SC'' \<longrightarrow> get_or_self pitch_type_map k = str ''Screwball'') \<and>
   (k = str ''ST'' \<longrightarrow> get_or_self pitch_type_map k = str ''Sweeper'') \<and>
   (k = str ''SV'' \<longrightarrow> get_or_self pitch_type_map k = str ''Slurve'') \<and>
   (k \<notin> {str ''FF'', str ''SL'', str ''CH'', str ''CU'', str ''SI'', str ''FC'', str ''FS'',
          str ''FT'', str ''KC'', str ''EP'', str ''KN'', str ''SC'', str ''ST'', str ''SV''} \<longrightarrow>
      get_or_self pitch_type_map k = k)"
  by (simp add: get_or_self_def pitch_type_map_def)

lemma length_pitch_type_map:
  "length pitch_type_map = 14 \<and> distinct (map fst pitch_type_map)"
  by (simp add: pitch_type_map_def)

text \<open>
  C6. In every row that either aggregation function returns, the display name is the
  entry of the fourteen-entry table for the row's pitch type code, and a code that is
  not in the table is its own display name.
\<close>

theorem pitch_name_lookup:
  assumes "get_out_percentage_by_pitch_type data player year min_pitches = Inr rows \<or>
           get_league_avg_out_percentage data year min_pitches = Inr rows"
    and "r \<in> set rows"
  shows
  "(pitch_type_key r = str ''FF'' \<longrightarrow> pitch_name r = str ''Four-Seam Fastball'') \<and>
   (pitch_type_key r = str ''SL'' \<longrightarrow> pitch_name r = str ''Slider'') \<and>
   (pitch_type_key r = str ''CH'' \<longrightarrow> pitch_name r = str ''Changeup'') \<and>
   (pitch_type_key r = str ''CU'' \<longrightarrow> pitch_name r = str ''Curveball'') \<and>
   (pitch_type_key r = str ''SI'' \<longrightarrow> pitch_name r = str ''Sinker'') \<and>
   (pitch_type_key r = str ''FC'' \<longrightarrow> pitch_name r = str ''Cutter'') \<and>
   (pitch_type_key r = str ''FS'' \<longrightarrow> pitch_name r = str ''Splitter'') \<and>
   (pitch_type_key r = str ''FT'' \<longrightarrow> pitch_name r = str ''Two-Seam Fastball'') \<and>
   (pitch_type_key r = str ''KC'' \<longrightarrow> pitch_name r = str ''Knuckle Curve'') \<and>
   (pitch_type_key r = str ''EP'' \<longrightarrow> pitch_name r = str ''Eephus'') \<and>
   (pitch_type_key r = str ''KN'' \<longrightarrow> pitch_name r = str ''Knuckleball'') \<and>
   (pitch_type_key r = str ''SC'' \<longrightarrow> pitch_name r = str ''Screwball'') \<and>
   (pitch_type_key r = str ''ST'' \<longrightarrow> pitch_name r = str ''Sweeper'') \<and>
   (pitch_type_key r = str ''SV'' \<longrightarrow> pitch_name r = str ''Slurve'') \<and>
   (pitch_type_key r \<notin> {str ''FF'', str ''SL'', str ''CH'', str ''CU'', str ''SI'', str ''FC'',
          str ''FS'', str ''FT'', str ''KC'', str ''EP'', str ''KN'', str ''SC'', str ''ST'',
          str ''SV''} \<longrightarrow>
      pitch_name r = pitch_type_key r)"
proof -
  from assms obtain df k where
    "r = \<lparr>pitch_type_key = k,
          out_pitch_count = (\<Sum>e\<leftarrow>group_of df k. if IsOutPitch e then 1 else 0),
          total_pitches = int (length (group_of df k)),
          out_percentage =
            round2 (mul (truediv (\<Sum>e\<leftarrow>group_of df k. if IsOutPitch e then 1 else 0)
                                 (int (length (group_of df k)))) 100),
          pitch_name = get_or_self pitch_type_map k\<rparr>"
    by (rule either_row)
  then have e: "pitch_name r = get_or_self pitch_type_map (pitch_type_key r)" by simp
  show ?thesis unfolding e by (rule get_or_self_pitch_type_map)
qed

theorem pitch_name_lookup_witness:
  "get_league_avg_out_percentage (Table sample_classified) 2024 1 =
     Inr [\<lparr>pitch_type_key = str ''FF'', out_pitch_count = 2, total_pitches = 3,
           out_percentage = Fin (binary64 (6667 / 100)), pitch_name = str ''Four-Seam Fastball''\<rparr>,
          \<lparr>pitch_type_key = str ''SL'', out_pitch_count = 0, total_pitches = 1,
           out_percentage = Fin 0, pitch_name = str ''Slider''\<rparr>,
          \<lparr>pitch_type_key = str ''XY'', out_pitch_count = 1, total_pitches = 1,
           out_percentage = Fin 100, pitch_name = str ''XY''\<rparr>] \<and>
   pitch_name \<lparr>pitch_type_key = str ''XY'', out_pitch_count = 1, total_pitches = 1,
           out_percentage = Fin 100, pitch_name = str ''XY''\<rparr> =
   pitch_type_key \<lparr>pitch_type_key = str ''XY'', out_pitch_count = 1, total_pitches = 1,
           out_percentage = Fin 100, pitch_name = str ''XY''\<rparr>"
  using pitch_name_lookup [OF disjI2 [OF league_sample_1], of
      "\<lparr>pitch_type_key = str ''XY'', out_pitch_count = 1, total_pitches = 1,
           out_percentage = Fin 100, pitch_name = str ''XY''\<rparr>"]
  by (intro conjI) (rule league_sample_1, simp)

section \<open>Missing pitch types\<close>

lemma outs_length:
  "(\<Sum>e\<leftarrow>g. if IsOutPitch e then 1 else (0::int)) = int (length (filter IsOutPitch g))"
  by (induction g) auto

lemma map_filter_dropna:
  "List.map_filter f (filter (\<lambda>e. f e \<noteq> None) xs) = List.map_filter f xs"
  by (induction xs) (auto split: option.splits)

lemma group_of_dropna:
  "group_of (filter (\<lambda>e. pitch_type e \<noteq> None) df) k = group_of df k"
  unfolding group_of_def filter_filter by (rule filter_cong) auto

lemma groupby_dropna:
  "groupby_pitch_type_agg (filter (\<lambda>e. pitch_type e \<noteq> None) df) = groupby_pitch_type_agg df"
  by (simp only: groupby_pitch_type_agg_def group_keys_def map_filter_dropna group_of_dropna)

lemma filter_swap: "filter P (filter Q xs) = filter Q (filter P xs)"
  by (simp add: conj_commute)

text \<open>
  C10. Events whose pitch type is missing take no part in the grouping: removing them
  from the table changes the result of neither aggregation function; the key of every
  row returned is the pitch type of an event of the table, and the two counts of the
  row count only the selected events that carry exactly that pitch type.
\<close>

theorem missing_pitch_type_not_grouped:
  "get_out_percentage_by_pitch_type (Table (filter (\<lambda>e. pitch_type e \<noteq> None) d)) player year m =
     get_out_percentage_by_pitch_type (Table d) player year m \<and>
   get_league_avg_out_percentage (Table (filter (\<lambda>e. pitch_type e \<noteq> None) d)) year m =
     get_league_avg_out_percentage (Table d) year m \<and>
   (get_out_percentage_by_pitch_type (Table d) player year m = Inr rows \<longrightarrow>
      (\<forall>r\<in>set rows.
         (\<exists>e\<in>set d. pitch_type e = Some (pitch_type_key r)) \<and>
         total_pitches r =
           int (length (filter (\<lambda>e. (player_name e = Some player \<and> game_year e = year) \<and>
                                     pitch_type e = Some (pitch_type_key r)) d)) \<and>
         out_pitch_count r =
           int (length (filter (\<lambda>e. ((player_name e = Some player \<and> game_year e = year) \<and>
                                     pitch_type e = Some (pitch_type_key r)) \<and> IsOutPitch e) d)))) \<and>
   (get_league_avg_out_percentage (Table d) year m = Inr rows \<longrightarrow>
      (\<forall>r\<in>set rows.
         (\<exists>e\<in>set d. pitch_type e = Some (pitch_type_key r)) \<and>
         total_pitches r =
           int (length (filter (\<lambda>e. game_year e = year \<and>
                                     pitch_type e = Some (pitch_type_key r)) d)) \<and>
         out_pitch_count r =
           int (length (filter (\<lambda>e. (game_year e = year \<and>
                                     pitch_type e = Some (pitch_type_key r)) \<and> IsOutPitch e) d))))"
proof (intro conjI impI ballI)
  show "get_out_percentage_by_pitch_type (Table (filter (\<lambda>e. pitch_type e \<noteq> None) d)) player year m =
     get_out_percentage_by_pitch_type (Table d) player year m"
    by (simp only: get_out_percentage_by_pitch_type.simps get_league_avg_out_percentage.simps
        Let_def filter_swap [of _ "\<lambda>e. pitch_type e \<noteq> None"] groupby_dropna)
  show "get_league_avg_out_percentage (Table (filter (\<lambda>e. pitch_type e \<noteq> None) d)) year m =
     get_league_avg_out_percentage (Table d) year m"
    by (simp only: get_out_percentage_by_pitch_type.simps get_league_avg_out_percentage.simps
        Let_def filter_swap [of _ "\<lambda>e. pitch_type e \<noteq> None"] groupby_dropna)
next
  fix r
  assume "get_out_percentage_by_pitch_type (Table d) player year m = Inr rows" "r \<in> set rows"
  then obtain k where k: "Some k \<in> pitch_type `
        set (filter (\<lambda>e. player_name e = Some player \<and> game_year e = year) d)"
    and r: "pitch_type_key r = k"
      "total_pitches r = int (length (group_of
          (filter (\<lambda>e. player_name e = Some player \<and> game_year e = year) d) k))"
      "out_pitch_count r = (\<Sum>e\<leftarrow>group_of
          (filter (\<lambda>e. player_name e = Some player \<and> game_year e = year) d) k.
            if IsOutPitch e then 1 else 0)"
    unfolding by_pitch_type_Inr by (auto simp only: in_result) auto
  from k show "\<exists>e\<in>set d. pitch_type e = Some (pitch_type_key r)"
    unfolding r by force
  show "total_pitches r =
           int (length (filter (\<lambda>e. (player_name e = Some player \<and> game_year e = year) \<and>
                                     pitch_type e = Some (pitch_type_key r)) d))"
    by (simp only: r group_of_filter)
  show "out_pitch_count r =
           int (length (filter (\<lambda>e. ((player_name e = Some player \<and> game_year e = year) \<and>
                                     pitch_type e = Some (pitch_type_key r)) \<and> IsOutPitch e) d))"
    by (simp only: r group_of_filter outs_length filter_filter)
next
  fix r
  assume "get_league_avg_out_percentage (Table d) year m = Inr rows" "r \<in> set rows"
  then obtain k where k: "Some k \<in> pitch_type ` set (filter (\<lambda>e. game_year e = year) d)"
    and r: "pitch_type_key r = k"
      "total_pitches r = int (length (group_of (filter (\<lambda>e. game_year e = year) d) k))"
      "out_pitch_count r = (\<Sum>e\<leftarrow>group_of (filter (\<lambda>e. game_year e = year) d) k.
            if IsOutPitch e then 1 else 0)"
    unfolding league_avg_Inr by (auto simp only: in_result) auto
  from k show "\<exists>e\<in>set d. pitch_type e = Some (pitch_type_key r)"
    unfolding r by force
  show "total_pitches r =
           int (length (filter (\<lambda>e. game_year e = year \<and>
                                     pitch_type e = Some (pitch_type_key r)) d))"
    by (simp only: r group_of_filter)
  show "out_pitch_count r =
           int (length (filter (\<lambda>e. (game_year e = year \<and>
                                     pitch_type e = Some (pitch_type_key r)) \<and> IsOutPitch e) d))"
    by (simp only: r group_of_filter outs_length filter_filter)
qed

theorem missing_pitch_type_not_grouped_witness:
  "get_league_avg_out_percentage (Table sample_classified) 2024 1 =
     Inr [\<lparr>pitch_type_key = str ''FF'', out_pitch_count = 2, total_pitches = 3,
           out_percentage = Fin (binary64 (6667 / 100)), pitch_name = str ''Four-Seam Fastball''\<rparr>,
          \<lparr>pitch_type_key = str ''SL'', out_pitch_count = 0, total_pitches = 1,
           out_percentage = Fin 0, pitch_name = str ''Slider''\<rparr>,
          \<lparr>pitch_type_key = str ''XY'', out_pitch_count = 1, total_pitches = 1,
           out_percentage = Fin 100, pitch_name = str ''XY''\<rparr>] \<and>
   get_league_avg_out_percentage
     (Table (filter (\<lambda>e. pitch_type e \<noteq> None) sample_classified)) 2024 1 =
     Inr [\<lparr>pitch_type_key = str ''FF'', out_pitch_count = 2, total_pitches = 3,
           out_percentage = Fin (binary64 (6667 / 100)), pitch_name = str ''Four-Seam Fastball''\<rparr>,
          \<lparr>pitch_type_key = str ''SL'', out_pitch_count = 0, total_pitches = 1,
           out_percentage = Fin 0, pitch_name = str ''Slider''\<rparr>,
          \<lparr>pitch_type_key = str ''XY'', out_pitch_count = 1, total_pitches = 1,
           out_percentage = Fin 100, pitch_name = str ''XY''\<rparr>] \<and>
   length (filter (\<lambda>e. pitch_type e = None) sample_classified) = 1"
proof -
  have "length (filter (\<lambda>e. pitch_type e = None) sample_classified) = 1"
    by (simp add: sample_classified_def)
  with missing_pitch_type_not_grouped [of sample_classified "str ''Cole, Gerrit''" 2024 1]
    league_sample_1
  show ?thesis by metis
qed

lemma group_keys_mset:
  assumes "mset df = mset df'"
  shows "group_keys df = group_keys df'"
proof -
  from assms have "set df = set df'" by (rule mset_eq_setD)
  then have "set (List.map_filter pitch_type df) = set (List.map_filter pitch_type df')"
    by (simp add: set_map_filter_Some)
  then show ?thesis
    unfolding group_keys_def sorted_list_of_set_sort_remdups [symmetric] by simp
qed

lemma group_of_mset:
  assumes "mset df = mset df'"
  shows "length (group_of df k) = length (group_of df' k)"
    and "(\<Sum>e\<leftarrow>group_of df k. if IsOutPitch e then 1 else (0::int)) =
         (\<Sum>e\<leftarrow>group_of df' k. if IsOutPitch e then 1 else 0)"
proof -
  from assms have g: "mset (group_of df k) = mset (group_of df' k)"
    by (simp add: group_of_def)
  then show "length (group_of df k) = length (group_of df' k)"
    by (rule mset_eq_length)
  from g have "mset (filter IsOutPitch (group_of df k)) = mset (filter IsOutPitch (group_of df' k))"
    by simp
  then have "length (filter IsOutPitch (group_of df k)) = length (filter IsOutPitch (group_of df' k))"
    by (rule mset_eq_length)
  then show "(\<Sum>e\<leftarrow>group_of df k. if IsOutPitch e then 1 else (0::int)) =
         (\<Sum>e\<leftarrow>group_of df' k. if IsOutPitch e then 1 else 0)"
    by (simp only: outs_length)
qed

lemma groupby_mset:
  assumes "mset df = mset df'"
  shows "groupby_pitch_type_agg df = groupby_pitch_type_agg df'"
  unfolding groupby_pitch_type_agg_def Let_def
  by (simp only: group_keys_mset [OF assms] group_of_mset [OF assms])

text \<open>
  C9. The rows an aggregation function returns are determined by its arguments: two
  runs on tables that hold the same events return the same rows in the same order,
  even when the events stand in a different order in the two tables. Two runs on one
  unchanged table are the case \<open>d' = d\<close>.
\<close>

theorem aggregation_deterministic:
  assumes "mset d = mset d'"
  shows "get_out_percentage_by_pitch_type (Table d) player year m =
           get_out_percentage_by_pitch_type (Table d') player year m \<and>
         get_league_avg_out_percentage (Table d) year m =
           get_league_avg_out_percentage (Table d') year m"
proof -
  have "\<And>P. mset (filter P d) = mset (filter P d')" using assms by simp
  then have "\<And>P. groupby_pitch_type_agg (filter P d) = groupby_pitch_type_agg (filter P d')"
    by (rule groupby_mset)
  then show ?thesis by (simp add: Let_def)
qed

theorem aggregation_deterministic_witness:
  "mset sample_classified = mset (rev sample_classified) \<and>
   get_league_avg_out_percentage (Table (rev sample_classified)) 2024 2 =
     Inr [\<lparr>pitch_type_key = str ''FF'', out_pitch_count = 2, total_pitches = 3,
           out_percentage = Fin (binary64 (6667 / 100)), pitch_name = str ''Four-Seam Fastball''\<rparr>]"
proof -
  have m: "mset sample_classified = mset (rev sample_classified)" by simp
  from aggregation_deterministic [OF m, of "str ''Cole, Gerrit''" 2024 2] league_sample_2 m
  show ?thesis by metis
qed

section \<open>Player names\<close>

lemma split_once_at_first:
  assumes "sep \<notin> set a"
  shows "split_once sep (a @ sep # b) = [a, b]"
proof -
  have "takeWhile (\<lambda>c. c \<noteq> sep) (a @ sep # b) = a"
    using assms by (induction a) auto
  moreover have "dropWhile (\<lambda>c. c \<noteq> sep) (a @ sep # b) = sep # b"
    using assms by (induction a) auto
  ultimately show ?thesis by (simp add: split_once_def)
qed

lemma first_occurrence:
  assumes "sep \<in> set s"
  obtains a b where "s = a @ sep # b" "sep \<notin> set a"
  using assms split_list_first [of sep s] by blast

lemma strip_spec:
  "\<exists>l r. s = l @ strip s @ r \<and> (\<forall>c\<in>set l. isspace c) \<and> (\<forall>c\<in>set r. isspace c) \<and>
         (strip s \<noteq> [] \<longrightarrow> \<not> isspace (hd (strip s)) \<and> \<not> isspace (last (strip s)))"
proof -
  define l where "l = takeWhile isspace s"
  define t where "t = dropWhile isspace s"
  define r where "r = rev (takeWhile isspace (rev t))"
  have s: "s = l @ t" by (simp add: l_def t_def)
  have e: "strip s = rev (dropWhile isspace (rev t))" by (simp only: strip_def t_def)
  have "rev (dropWhile isspace (rev t)) @ rev (takeWhile isspace (rev t)) =
      rev (takeWhile isspace (rev t) @ dropWhile isspace (rev t))"
    by (simp only: rev_append)
  also have "\<dots> = rev (rev t)" by (simp only: takeWhile_dropWhile_id)
  also have "\<dots> = t" by (simp only: rev_rev_ident)
  finally have t: "t = strip s @ r" by (simp only: e r_def)
  have l: "\<forall>c\<in>set l. isspace c" by (auto simp: l_def dest: set_takeWhileD)
  have r: "\<forall>c\<in>set r. isspace c" by (auto simp: r_def dest: set_takeWhileD)
  have "\<not> isspace (hd (strip s)) \<and> \<not> isspace (last (strip s))" if ne: "strip s \<noteq> []"
  proof
    from ne have "t \<noteq> []" using t by auto
    then have "\<not> isspace (hd t)" unfolding t_def by (rule hd_dropWhile)
    moreover have "hd t = hd (strip s)" using t ne by (metis hd_append2)
    ultimately show "\<not> isspace (hd (strip s))" by simp
    from ne have d: "dropWhile isspace (rev t) \<noteq> []" by (simp add: e)
    then have "\<not> isspace (hd (dropWhile isspace (rev t)))" by (rule hd_dropWhile)
    moreover have "last (strip s) = hd (dropWhile isspace (rev t))"
      using d by (simp add: e last_rev)
    ultimately show "\<not> isspace (last (strip s))" by simp
  qed
  with s t l r show ?thesis by (metis append_assoc)
qed

text \<open>
  C7. \<open>format_player_name\<close> always returns. A name without a comma is returned
  unchanged. A name with a comma is cut at its first comma only: with \<open>last_part\<close>
  the text before it and \<open>rest\<close> all the text after it, further commas included, the
  result is \<open>rest\<close> stripped, a space, \<open>last_part\<close> stripped. \<open>strip\<close> removes
  whitespace at both ends and nothing else: what it leaves neither begins nor ends
  with whitespace. "Judge, Aaron" gives "Aaron Judge" and "Smith" gives "Smith".
\<close>

theorem format_player_name_first_last:
  "(of_char CHR '','' \<notin> set name \<longrightarrow> format_player_name name = Inr name) \<and>
   (\<forall>last_part rest.
      name = last_part @ str '','' @ rest \<and> of_char CHR '','' \<notin> set last_part \<longrightarrow>
      format_player_name name = Inr (strip rest @ str '' '' @ strip last_part)) \<and>
   (\<exists>out. format_player_name name = Inr out) \<and>
   (\<exists>l r. s = l @ strip s @ r \<and> (\<forall>c\<in>set l. isspace c) \<and> (\<forall>c\<in>set r. isspace c) \<and>
      (strip s \<noteq> [] \<longrightarrow> \<not> isspace (hd (strip s)) \<and> \<not> isspace (last (strip s)))) \<and>
   format_player_name (str ''Judge, Aaron'') = Inr (str ''Aaron Judge'') \<and>
   format_player_name (str ''Smith'') = Inr (str ''Smith'')"
proof (intro conjI impI allI)
  show "format_player_name name = Inr name" if "of_char CHR '','' \<notin> set name"
    using that by (simp add: format_player_name_def)
  show "format_player_name name = Inr (strip rest @ str '' '' @ strip last_part)"
    if "name = last_part @ str '','' @ rest \<and> of_char CHR '','' \<notin> set last_part"
    for last_part rest
  proof -
    from that have n: "name = last_part @ of_char CHR '','' # rest"
      and c: "of_char CHR '','' \<notin> set last_part" by simp_all
    have "split_once (of_char CHR '','') name = [last_part, rest]"
      unfolding n using c by (rule split_once_at_first)
    moreover have "of_char CHR '','' \<in> set name" unfolding n by simp
    ultimately show ?thesis by (simp add: format_player_name_def)
  qed
  show "\<exists>out. format_player_name name = Inr out"
  proof (cases "of_char CHR '','' \<in> set name")
    case True
    then obtain a b where n: "name = a @ of_char CHR '','' # b" and c: "of_char CHR '','' \<notin> set a"
      by (rule first_occurrence)
    have "split_once (of_char CHR '','') name = [a, b]"
      unfolding n using c by (rule split_once_at_first)
    with True show ?thesis by (simp add: format_player_name_def)
  next
    case False
    then show ?thesis by (simp add: format_player_name_def)
  qed
  show "\<exists>l r. s = l @ strip s @ r \<and> (\<forall>c\<in>set l. isspace c) \<and> (\<forall>c\<in>set r. isspace c) \<and>
      (strip s \<noteq> [] \<longrightarrow> \<not> isspace (hd (strip s)) \<and> \<not> isspace (last (strip s)))"
    by (rule strip_spec)
  show "format_player_name (str ''Judge, Aaron'') = Inr (str ''Aaron Judge'')"
    by (simp add: format_player_name_def split_once_def strip_def isspace_def)
  show "format_player_name (str ''Smith'') = Inr (str ''Smith'')"
    by (simp add: format_player_name_def)
qed

theorem format_player_name_first_last_witness:
  "format_player_name (str ''Griffey, Ken, Jr.'') = Inr (str ''Ken, Jr. Griffey'') \<and>
   strip (str '' Ken, Jr.'') = str ''Ken, Jr.''"
proof -
  have s: "strip (str '' Ken, Jr.'') = str ''Ken, Jr.''" "strip (str ''Griffey'') = str ''Griffey''"
    by (simp_all add: strip_def isspace_def)
  have "str ''Griffey, Ken, Jr.'' = str ''Griffey'' @ str '','' @ str '' Ken, Jr.'' \<and>
        of_char CHR '','' \<notin> set (str ''Griffey'')"
    by simp
  with format_player_name_first_last [of "str ''Griffey, Ken, Jr.''" "[]"]
  have "format_player_name (str ''Griffey, Ken, Jr.'') =
          Inr (strip (str '' Ken, Jr.'') @ str '' '' @ strip (str ''Griffey''))"
    by blast
  then show ?thesis by (simp only: s) simp
qed

section \<open>Loading the data and empty data\<close>

lemma after_two_failures_eq:
  "after_two_failures =
     \<lparr>requests = [(Year_month_day 2024 3 1, Year_month_day 2024 11 30),
                  (Day 738979, Day 739000)],
      ui = [Spinner_fetching, Error_loading (str ''timeout''),
            Spinner_smaller_range (Day 738979) (Day 739000),
            Error_failed (str ''timeout'')],
      cache = [(2024, 2024) \<mapsto>
        \<lparr>cached_frame = NoColumns,
         cached_ui = [Spinner_fetching, Error_loading (str ''timeout''),
                      Spinner_smaller_range (Day 738979) (Day 739000),
                      Error_failed (str ''timeout'')],
         expires = 3660\<rparr>]\<rparr>"
  by (simp add: after_two_failures_def load_statcast_data_def load_statcast_data_body_def
      cache_lookup_def statcast_def st_show_def always_fails_def new_session_def Let_def)

text \<open>
  C8, as stated, fails on a call that the cache answers. After a call at time 0 in
  which both requests failed, a call with the same arguments at time 100 sends no
  request at all, although the service would now answer: it returns the empty frame
  stored by the first call.
\<close>

theorem cached_call_counterexample:
  "requests after_two_failures =
     [(Year_month_day 2024 3 1, Year_month_day 2024 11 30), (Day 738979, Day 739000)] \<and>
   fst (load_statcast_data always_answers 100 160 739000 2024 2024 after_two_failures) =
     NoColumns \<and>
   requests (snd (load_statcast_data always_answers 100 160 739000 2024 2024
                    after_two_failures)) =
     [(Year_month_day 2024 3 1, Year_month_day 2024 11 30), (Day 738979, Day 739000)]"
  by (simp add: after_two_failures_eq load_statcast_data_def cache_lookup_def)

text \<open>
  C8, amended. On a call that the cache does not answer, \<open>load_statcast_data\<close> sends
  one request for the range from March 1 of the start year to November 30 of the end
  year. When that request answers, its frame is returned and no other request is
  sent. When it raises, exactly one more request is sent, for the days from
  \<open>today - 21\<close> to \<open>today\<close>; its frame is returned when it answers, and when it raises
  too the column-less empty frame is returned, the error is shown, and no third
  request is sent. In each case the frame returned is stored in the cache for 3600
  seconds. On a call that the cache answers, the stored frame is returned and no
  request is sent.
\<close>

theorem load_statcast_data_two_attempts:
  "(cache_lookup s0 (start_year, end_year) now = None \<and>
    srv (length (requests s0)) (Year_month_day start_year 3 1) (Year_month_day end_year 11 30)
      = Inr d \<longrightarrow>
    load_statcast_data srv now stored today start_year end_year s0 =
      (d, \<lparr>requests = requests s0 @
               [(Year_month_day start_year 3 1, Year_month_day end_year 11 30)],
           ui = ui s0 @ [Spinner_fetching, Success_loaded],
           cache = (cache s0)((start_year, end_year) \<mapsto>
             \<lparr>cached_frame = d, cached_ui = [Spinner_fetching, Success_loaded],
              expires = stored + 3600\<rparr>)\<rparr>)) \<and>
   (cache_lookup s0 (start_year, end_year) now = None \<and>
    srv (length (requests s0)) (Year_month_day start_year 3 1) (Year_month_day end_year 11 30)
      = Inl e \<and>
    srv (length (requests s0) + 1) (Day (today - 21)) (Day today) = Inr d \<longrightarrow>
    load_statcast_data srv now stored today start_year end_year s0 =
      (d, \<lparr>requests = requests s0 @
               [(Year_month_day start_year 3 1, Year_month_day end_year 11 30),
                (Day (today - 21), Day today)],
           ui = ui s0 @ [Spinner_fetching, Error_loading e,
                         Spinner_smaller_range (Day (today - 21)) (Day today),
                         Success_reduced],
           cache = (cache s0)((start_year, end_year) \<mapsto>
             \<lparr>cached_frame = d,
              cached_ui = [Spinner_fetching, Error_loading e,
                           Spinner_smaller_range (Day (today - 21)) (Day today),
                           Success_reduced],
              expires = stored + 3600\<rparr>)\<rparr>)) \<and>
   (cache_lookup s0 (start_year, end_year) now = None \<and>
    srv (length (requests s0)) (Year_month_day start_year 3 1) (Year_month_day end_year 11 30)
      = Inl e \<and>
    srv (length (requests s0) + 1) (Day (today - 21)) (Day today) = Inl e2 \<longrightarrow>
    load_statcast_data srv now stored today start_year end_year s0 =
      (NoColumns,
       \<lparr>requests = requests s0 @
               [(Year_month_day start_year 3 1, Year_month_day end_year 11 30),
                (Day (today - 21), Day today)],
        ui = ui s0 @ [Spinner_fetching, Error_loading e,
                      Spinner_smaller_range (Day (today - 21)) (Day today),
                      Error_failed e2],
        cache = (cache s0)((start_year, end_year) \<mapsto>
          \<lparr>cached_frame = NoColumns,
           cached_ui = [Spinner_fetching, Error_loading e,
                        Spinner_smaller_range (Day (today - 21)) (Day today),
                        Error_failed e2],
           expires = stored + 3600\<rparr>)\<rparr>) \<and>
    empty (fst (load_statcast_data srv now stored today start_year end_year s0))) \<and>
   (cache_lookup s0 (start_year, end_year) now = Some c \<longrightarrow>
    load_statcast_data srv now stored today start_year end_year s0 =
      (cached_frame c,
       \<lparr>requests = requests s0, ui = ui s0 @ cached_ui c, cache = cache s0\<rparr>))"
  by (simp add: load_statcast_data_def load_statcast_data_body_def statcast_def st_show_def
      Let_def)

theorem load_statcast_data_two_attempts_witness:
  "load_statcast_data always_fails 0 60 739000 2024 2024 new_session =
     (NoColumns, after_two_failures) \<and>
   load_statcast_data fails_once 0 60 739000 2024 2024 new_session =
     (Table sample_pitches,
      \<lparr>requests = [(Year_month_day 2024 3 1, Year_month_day 2024 11 30),
                   (Day 738979, Day 739000)],
       ui = [Spinner_fetching, Error_loading (str ''timeout''),
             Spinner_smaller_range (Day 738979) (Day 739000), Success_reduced],
       cache = [(2024, 2024) \<mapsto>
         \<lparr>cached_frame = Table sample_pitches,
          cached_ui = [Spinner_fetching, Error_loading (str ''timeout''),
                       Spinner_smaller_range (Day 738979) (Day 739000), Success_reduced],
          expires = 3660\<rparr>]\<rparr>) \<and>
   fst (load_statcast_data always_answers 3659 3700 739000 2024 2024 after_two_failures) =
     NoColumns \<and>
   cache_lookup after_two_failures (2024, 2024) 3660 = None \<and>
   fst (load_statcast_data always_answers 3660 3700 739000 2024 2024 after_two_failures) =
     Table sample_pitches"
  using load_statcast_data_two_attempts [of new_session 2024 2024 0 always_fails _ 60 739000
      "str ''timeout''" "str ''timeout''"]
    load_statcast_data_two_attempts [of new_session 2024 2024 0 fails_once
      "Table sample_pitches" 60 739000 "str ''timeout''"]
    load_statcast_data_two_attempts [of after_two_failures 2024 2024 3659 always_answers _
      3700 739000 _ _
      "\<lparr>cached_frame = NoColumns,
        cached_ui = [Spinner_fetching, Error_loading (str ''timeout''),
                     Spinner_smaller_range (Day 738979) (Day 739000),
                     Error_failed (str ''timeout'')],
        expires = 3660\<rparr>"]
    load_statcast_data_two_attempts [of after_two_failures 2024 2024 3660 always_answers
      "Table sample_pitches" 3700 739000]
  by (simp add: after_two_failures_eq always_fails_def fails_once_def always_answers_def
      new_session_def cache_lookup_def)

text \<open>
  C5, as stated, fails on the column-less frame \<open>pd.DataFrame()\<close>, the empty dataset
  that \<open>load_statcast_data\<close> returns after two failures: both aggregation functions
  raise \<open>KeyError\<close> on it. The page calls them only under \<open>if not data.empty\<close>.
\<close>

theorem empty_frame_counterexample:
  "empty (NoColumns :: classified_event frame) \<and>
   get_out_percentage_by_pitch_type NoColumns (str ''Cole, Gerrit'') 2024 5 =
     Inl (KeyError (str ''player_name'')) \<and>
   get_league_avg_out_percentage NoColumns 2024 5 = Inl (KeyError (str ''game_year''))"
  by simp

text \<open>
  C5, amended. On a table without rows that has the columns of classified pitch
  events, both aggregation functions return the empty sequence; and so they do on any
  such table in which no event matches the player and season, or the season.
\<close>

theorem empty_table_no_rows:
  "get_out_percentage_by_pitch_type (Table []) player year m = Inr [] \<and>
   get_league_avg_out_percentage (Table []) year m = Inr [] \<and>
   ((\<forall>e\<in>set d. \<not> (player_name e = Some player \<and> game_year e = year)) \<longrightarrow>
      get_out_percentage_by_pitch_type (Table d) player year m = Inr []) \<and>
   ((\<forall>e\<in>set d. game_year e \<noteq> year) \<longrightarrow>
      get_league_avg_out_percentage (Table d) year m = Inr [])"
proof -
  have g: "add_pitch_name (filter (\<lambda>r. m \<le> total_pitches r)
       (add_out_percentage (groupby_pitch_type_agg []))) = []"
    by (simp add: groupby_pitch_type_agg_def group_keys_def add_out_percentage_def
        add_pitch_name_def)
  have "filter (\<lambda>e. player_name e = Some player \<and> game_year e = year) d = []"
    if "\<forall>e\<in>set d. \<not> (player_name e = Some player \<and> game_year e = year)"
    using that by (simp add: filter_empty_conv)
  moreover have "filter (\<lambda>e. game_year e = year) d = []" if "\<forall>e\<in>set d. game_year e \<noteq> year"
    using that by (simp add: filter_empty_conv)
  ultimately show ?thesis using g by (simp add: Let_def)
qed

theorem empty_table_no_rows_witness:
  "get_out_percentage_by_pitch_type (Table sample_classified) (str ''Cole, Gerrit'') 1999 5 = Inr [] \<and>
   get_league_avg_out_percentage (Table sample_classified) 1999 5 = Inr [] \<and>
   map game_year sample_classified = [2024, 2024, 2024, 2024, 2024, 2024]"
proof -
  have g: "map game_year sample_classified = [2024, 2024, 2024, 2024, 2024, 2024]"
    by (simp add: sample_classified_def)
  have h: "\<forall>e\<in>set sample_classified. game_year e \<noteq> 1999"
    by (simp add: sample_classified_def)
  then have "\<forall>e\<in>set sample_classified.
      \<not> (player_name e = Some (str ''Cole, Gerrit'') \<and> game_year e = 1999)"
    by blast
  with h g empty_table_no_rows [of "str ''Cole, Gerrit''" 1999 5 sample_classified]
  show ?thesis by blast
qed

end
